theory Spec2Isabelle
  imports Main "HOL-Library.Sublist" "HOL-Library.AList"
begin

section \<open>The i18n module of the landing page\<close>

text \<open>
  The module resolves the active language, loads the translation bundle of that language
  (a JSON document fetched once and kept in a cache), writes the translations into the
  marked elements of the page and keeps the language picker in step.

  Text is a list of bytes (UTF-8): the module only compares strings, cuts them at the
  ASCII characters \<open>-\<close> and \<open>.\<close> and tests prefixes, and all three agree on bytes and on
  the characters of the script.
\<close>

subsection \<open>Constants\<close>

definition I18N_STORAGE_KEY :: string where
  "I18N_STORAGE_KEY = ''lang''"

definition DEFAULT_LANG :: string where
  "DEFAULT_LANG = ''en''"

definition SUPPORTED_LANGS :: "string list" where
  "SUPPORTED_LANGS = [''en'', ''pt-BR'', ''de'']"

subsection \<open>Strings\<close>

text \<open>
  \<open>s.split(c)\<close> for a one-character separator: the pieces between the separators, in
  order. The result is never empty (\<open>''''.split(c)\<close> is \<open>['''']\<close>), so its element 0
  exists.
\<close>

fun splitOn :: "char \<Rightarrow> string \<Rightarrow> string list" where
  "splitOn c [] = [[]]"
| "splitOn c (x # xs) =
     (if x = c then [] # splitOn c xs
      else (case splitOn c xs of
              [] \<Rightarrow> [[x]]
            | piece # pieces \<Rightarrow> (x # piece) # pieces))"

text \<open>\<open>s.startsWith(p)\<close>.\<close>

definition startsWith :: "string \<Rightarrow> string \<Rightarrow> bool" where
  "startsWith s p = prefix p s"

text \<open>The truth value of a string in a condition: every string but the empty one.\<close>

definition truthyString :: "string \<Rightarrow> bool" where
  "truthyString s = (s \<noteq> [])"

subsection \<open>Language resolution\<close>

text \<open>
  What the script reads of the browser: \<open>navigator.languages\<close> (the ordered list of
  preferred locales, \<open>None\<close> where the browser has no such property) and
  \<open>navigator.language\<close>.
\<close>

record navigator =
  languages :: "string list option"
  language :: string

text \<open>
  The loop of \<open>detectBrowserLang\<close> over the locales, with the list of supported codes
  as an argument. For each locale in order: the locale itself when it is supported, else
  the first supported code that is the locale's part before its first \<open>-\<close>, or starts
  with that part and a \<open>-\<close>.
\<close>

fun detectFrom :: "string list \<Rightarrow> string list \<Rightarrow> string option" where
  "detectFrom supported [] = None"
| "detectFrom supported (browserLang # rest) =
     (if browserLang \<in> set supported then Some browserLang
      else
        (let prefix = hd (splitOn CHR ''-'' browserLang) in
         case List.find (\<lambda>s. s = prefix \<or> startsWith s (prefix @ ''-'')) supported of
           Some match \<Rightarrow> if truthyString match then Some match else detectFrom supported rest
         | None \<Rightarrow> detectFrom supported rest))"

text \<open>\<open>navigator.languages ?? [navigator.language]\<close>.\<close>

definition browserLocales :: "navigator \<Rightarrow> string list" where
  "browserLocales nav =
     (case languages nav of Some langs \<Rightarrow> langs | None \<Rightarrow> [language nav])"

definition detectBrowserLang :: "navigator \<Rightarrow> string option" where
  "detectBrowserLang nav = detectFrom SUPPORTED_LANGS (browserLocales nav)"

text \<open>
  \<open>resolveLanguage\<close> reads the stored preference (\<open>localStorage.getItem\<close>, \<open>None\<close> for
  a key that is not stored) and the browser's locales.
\<close>

definition resolveLanguage :: "(string \<rightharpoonup> string) \<Rightarrow> navigator \<Rightarrow> string" where
  "resolveLanguage storage nav =
     (case storage I18N_STORAGE_KEY of
        Some stored \<Rightarrow>
          if truthyString stored \<and> stored \<in> set SUPPORTED_LANGS then stored
          else (case detectBrowserLang nav of
                  Some detected \<Rightarrow> if truthyString detected then detected else DEFAULT_LANG
                | None \<Rightarrow> DEFAULT_LANG)
      | None \<Rightarrow>
          (case detectBrowserLang nav of
             Some detected \<Rightarrow> if truthyString detected then detected else DEFAULT_LANG
           | None \<Rightarrow> DEFAULT_LANG))"

subsection \<open>Values\<close>

text \<open>
  The values the module handles: what \<open>response.json()\<close> gives (null, booleans,
  numbers, strings, arrays, objects), \<open>undefined\<close>, and the functions of the language
  that a property read can reach (\<open>({}).constructor\<close>). A number is held as the text that
  the language prints for it, a function as its source text, which is all the module uses
  of either. An object is the list of its own entries.
\<close>

datatype jsval =
    JUndefined
  | JNull
  | JBool bool
  | JNum string
  | JStr string
  | JArr "jsval list"
  | JObj "(string \<times> jsval) list"
  | JFunction string

text \<open>The truth value of \<open>v\<close> in a condition (\<open>if (v)\<close>).\<close>

fun truthy :: "jsval \<Rightarrow> bool" where
  "truthy JUndefined = False"
| "truthy JNull = False"
| "truthy (JBool b) = b"
| "truthy (JNum n) = (n \<noteq> ''0'' \<and> n \<noteq> ''NaN'')"
| "truthy (JStr s) = (s \<noteq> [])"
| "truthy (JArr xs) = True"
| "truthy (JObj kvs) = True"
| "truthy (JFunction src) = True"

text \<open>\<open>v == null\<close>: true of \<open>null\<close> and \<open>undefined\<close> only.\<close>

fun nullish :: "jsval \<Rightarrow> bool" where
  "nullish JUndefined = True"
| "nullish JNull = True"
| "nullish v = False"

fun joinWith :: "string \<Rightarrow> string list \<Rightarrow> string" where
  "joinWith sep [] = []"
| "joinWith sep [x] = x"
| "joinWith sep (x # y # zs) = x @ sep @ joinWith sep (y # zs)"

text \<open>What a statement of the module can throw.\<close>

datatype exception = TypeError

text \<open>The results of a list of conversions, up to the first that throws.\<close>

fun allOrThrow :: "(exception + 'a) list \<Rightarrow> exception + 'a list" where
  "allOrThrow [] = Inr []"
| "allOrThrow (Inl e # rs) = Inl e"
| "allOrThrow (Inr x # rs) = (case allOrThrow rs of Inl e \<Rightarrow> Inl e | Inr xs \<Rightarrow> Inr (x # xs))"

text \<open>
  The string a value becomes when it is assigned to \<open>textContent\<close> or \<open>document.title\<close>
  or passed to \<open>setAttribute\<close>. An object is printed by its \<open>toString\<close>: the
  inherited one gives \<open>[object Object]\<close>, and an object with an entry \<open>toString\<close> of its
  own (never a function, in a value parsed from JSON) cannot be converted: the
  statement throws a TypeError. An array prints its elements, joined by commas, and
  throws when one of them does.
\<close>

fun ToString :: "jsval \<Rightarrow> exception + string" where
  "ToString JUndefined = Inr ''undefined''"
| "ToString JNull = Inr ''null''"
| "ToString (JBool b) = Inr (if b then ''true'' else ''false'')"
| "ToString (JNum n) = Inr n"
| "ToString (JStr s) = Inr s"
| "ToString (JArr xs) =
     (case allOrThrow (map (\<lambda>x. if nullish x then Inr [] else ToString x) xs) of
        Inl e \<Rightarrow> Inl e
      | Inr pieces \<Rightarrow> Inr (joinWith '','' pieces))"
| "ToString (JObj kvs) =
     (if ''toString'' \<in> fst ` set kvs then Inl TypeError else Inr ''[object Object]'')"
| "ToString (JFunction src) = Inr src"

text \<open>The decimal numeral of a natural number.\<close>

fun decimal :: "nat \<Rightarrow> string" where
  "decimal n =
     (if n < 10 then [char_of (48 + n)]
      else decimal (n div 10) @ [char_of (48 + n mod 10)])"

declare decimal.simps [simp del]

text \<open>
  What the language provides beyond a value's own entries: \<open>inherited v key\<close> is the
  value of the property \<open>key\<close> that \<open>v\<close> does not hold itself but finds on its
  prototype chain or has as a primitive (the \<open>constructor\<close> and the methods of an object,
  the length and the characters of a string), and \<open>undefined\<close> where there is none. It
  is an argument of the model: every theorem holds for whatever the browser provides.
\<close>

type_synonym builtins = "jsval \<Rightarrow> string \<Rightarrow> jsval"

text \<open>
  \<open>current?.[key]\<close>: \<open>undefined\<close> on \<open>null\<close> and \<open>undefined\<close>; on an object the entry
  of that name; on an array the element whose index is written \<open>key\<close>, and the length;
  in every other case what the language provides.
\<close>

fun getProp :: "builtins \<Rightarrow> jsval \<Rightarrow> string \<Rightarrow> jsval" where
  "getProp inherited JUndefined key = JUndefined"
| "getProp inherited JNull key = JUndefined"
| "getProp inherited (JObj kvs) key =
     (case map_of kvs key of Some v \<Rightarrow> v | None \<Rightarrow> inherited (JObj kvs) key)"
| "getProp inherited (JArr xs) key =
     (case List.find (\<lambda>i. decimal i = key) [0..<length xs] of
        Some i \<Rightarrow> xs ! i
      | None \<Rightarrow> if key = ''length'' then JNum (decimal (length xs))
                else inherited (JArr xs) key)"
| "getProp inherited v key = inherited v key"

text \<open>\<open>keyPath.split('.').reduce((current, key) => current?.[key], obj)\<close>.\<close>

definition getNestedValue :: "builtins \<Rightarrow> jsval \<Rightarrow> string \<Rightarrow> jsval" where
  "getNestedValue inherited obj keyPath =
     foldl (getProp inherited) obj (splitOn CHR ''.'' keyPath)"

subsection \<open>The page\<close>

text \<open>
  An element of the page: its tag, its attributes by name, the tokens of its class
  attribute and its text. The page is its root element (\<open>document.documentElement\<close>),
  the other elements in document order, and the document's title. Each element carries
  its own text: the model covers pages in which the elements the module writes to do not
  contain one another.
\<close>

record element =
  tagName :: string
  attributes :: "(string \<times> string) list"
  classList :: "string list"
  textContent :: string

record dom_document =
  documentElement :: element
  descendants :: "element list"
  title :: string

text \<open>All the elements of the page, in document order.\<close>

definition elements :: "dom_document \<Rightarrow> element list" where
  "elements doc = documentElement doc # descendants doc"

definition getAttribute :: "element \<Rightarrow> string \<Rightarrow> string option" where
  "getAttribute el name = map_of (attributes el) name"

definition setAttribute :: "string \<Rightarrow> string \<Rightarrow> element \<Rightarrow> element" where
  "setAttribute name v el = el\<lparr>attributes := AList.update name v (attributes el)\<rparr>"

text \<open>\<open>el.classList.toggle(token, force)\<close>: the token is there afterwards exactly when \<open>force\<close>.\<close>

definition classList_toggle :: "string \<Rightarrow> bool \<Rightarrow> element \<Rightarrow> element" where
  "classList_toggle token force el =
     (if token \<in> set (classList el)
      then (if force then el else el\<lparr>classList := removeAll token (classList el)\<rparr>)
      else (if force then el\<lparr>classList := classList el @ [token]\<rparr> else el))"

text \<open>The selectors \<open>[name]\<close>, \<open>.token\<close> and \<open>meta[name="description"]\<close>.\<close>

definition hasAttribute :: "string \<Rightarrow> element \<Rightarrow> bool" where
  "hasAttribute name el = (getAttribute el name \<noteq> None)"

definition hasClass :: "string \<Rightarrow> element \<Rightarrow> bool" where
  "hasClass token el = (token \<in> set (classList el))"

definition isDescriptionMeta :: "element \<Rightarrow> bool" where
  "isDescriptionMeta el =
     (tagName el = ''meta'' \<and> getAttribute el ''name'' = Some ''description'')"

text \<open>
  \<open>document.querySelectorAll(selector).forEach(f)\<close>, for an \<open>f\<close> that writes to its own
  element only: every selected element, the root included, is replaced by what \<open>f\<close> makes
  of it.
\<close>

definition forEachSelected ::
  "(element \<Rightarrow> bool) \<Rightarrow> (element \<Rightarrow> element) \<Rightarrow> dom_document \<Rightarrow> dom_document" where
  "forEachSelected selected f doc =
     doc\<lparr>documentElement :=
           (if selected (documentElement doc) then f (documentElement doc)
            else documentElement doc),
         descendants := map (\<lambda>el. if selected el then f el else el) (descendants doc)\<rparr>"

text \<open>
  \<open>document.querySelector(selector)?.f\<close>: the first selected element in document order
  is replaced, and nothing happens when there is none.
\<close>

fun updateFirst :: "(element \<Rightarrow> bool) \<Rightarrow> (element \<Rightarrow> element) \<Rightarrow> element list \<Rightarrow> element list" where
  "updateFirst selected f [] = []"
| "updateFirst selected f (el # els) =
     (if selected el then f el # els else el # updateFirst selected f els)"

definition onFirstSelected ::
  "(element \<Rightarrow> bool) \<Rightarrow> (element \<Rightarrow> element) \<Rightarrow> dom_document \<Rightarrow> dom_document" where
  "onFirstSelected selected f doc =
     (if selected (documentElement doc)
      then doc\<lparr>documentElement := f (documentElement doc)\<rparr>
      else doc\<lparr>descendants := updateFirst selected f (descendants doc)\<rparr>)"

text \<open>
  The same loop for an \<open>f\<close> that can throw: the elements are visited in document
  order, and the first throw ends the loop, with the elements before it written and the
  others as they were. The result is what was thrown, if anything, and the page as the
  loop leaves it.
\<close>

fun eachOrThrow ::
  "(element \<Rightarrow> exception + element) \<Rightarrow> element list \<Rightarrow> exception option \<times> element list" where
  "eachOrThrow f [] = (None, [])"
| "eachOrThrow f (el # els) =
     (case f el of
        Inl e \<Rightarrow> (Some e, el # els)
      | Inr el' \<Rightarrow> (case eachOrThrow f els of (r, els') \<Rightarrow> (r, el' # els')))"

definition withElements :: "dom_document \<Rightarrow> element list \<Rightarrow> dom_document" where
  "withElements doc els =
     (case els of
        [] \<Rightarrow> doc
      | root # rest \<Rightarrow> doc\<lparr>documentElement := root, descendants := rest\<rparr>)"

definition forEachOrThrow ::
  "(element \<Rightarrow> bool) \<Rightarrow> (element \<Rightarrow> exception + element) \<Rightarrow> dom_document
     \<Rightarrow> exception option \<times> dom_document" where
  "forEachOrThrow selected f doc =
     (case eachOrThrow (\<lambda>el. if selected el then f el else Inr el) (elements doc) of
        (r, els) \<Rightarrow> (r, withElements doc els))"

subsection \<open>Applying a bundle\<close>

text \<open>
  The body of the loop over the elements with a \<open>data-i18n\<close> attribute. The assignment
  to \<open>textContent\<close> converts the value to a string, and throws when that fails.
\<close>

definition translateText :: "builtins \<Rightarrow> jsval \<Rightarrow> element \<Rightarrow> exception + element" where
  "translateText inherited translations el =
     (case getAttribute el ''data-i18n'' of
        None \<Rightarrow> Inr el
      | Some key \<Rightarrow>
          (let v = getNestedValue inherited translations key in
           if \<not> nullish v
           then (case ToString v of Inl e \<Rightarrow> Inl e | Inr s \<Rightarrow> Inr (el\<lparr>textContent := s\<rparr>))
           else Inr el))"

text \<open>The body of the loop over the elements with a \<open>data-i18n-aria-label\<close> attribute.\<close>

definition translateAriaLabel :: "builtins \<Rightarrow> jsval \<Rightarrow> element \<Rightarrow> exception + element" where
  "translateAriaLabel inherited translations el =
     (case getAttribute el ''data-i18n-aria-label'' of
        None \<Rightarrow> Inr el
      | Some key \<Rightarrow>
          (let v = getNestedValue inherited translations key in
           if \<not> nullish v
           then (case ToString v of
                   Inl e \<Rightarrow> Inl e
                 | Inr s \<Rightarrow> Inr (setAttribute ''aria-label'' s el))
           else Inr el))"

text \<open>\<open>if (metaTitle) document.title = metaTitle\<close>.\<close>

definition setTitle :: "jsval \<Rightarrow> dom_document \<Rightarrow> exception + dom_document" where
  "setTitle metaTitle doc =
     (if truthy metaTitle
      then (case ToString metaTitle of Inl e \<Rightarrow> Inl e | Inr s \<Rightarrow> Inr (doc\<lparr>title := s\<rparr>))
      else Inr doc)"

text \<open>
  \<open>if (metaDesc) document.querySelector('meta[name="description"]')?.setAttribute('content', metaDesc)\<close>:
  the value is converted only when there is such an element.
\<close>

definition setDescription :: "jsval \<Rightarrow> dom_document \<Rightarrow> exception + dom_document" where
  "setDescription metaDesc doc =
     (if truthy metaDesc \<and> list_ex isDescriptionMeta (elements doc)
      then (case ToString metaDesc of
              Inl e \<Rightarrow> Inl e
            | Inr s \<Rightarrow> Inr (onFirstSelected isDescriptionMeta (setAttribute ''content'' s) doc))
      else Inr doc)"

text \<open>
  \<open>applyTranslations\<close>: what it throws, if anything, and the page as it leaves it. A
  throw ends the function where it happens.
\<close>

definition applyTranslations ::
  "builtins \<Rightarrow> jsval \<Rightarrow> dom_document \<Rightarrow> exception option \<times> dom_document" where
  "applyTranslations inherited translations doc =
     (case forEachOrThrow (hasAttribute ''data-i18n'')
             (translateText inherited translations) doc of
        (Some e, doc1) \<Rightarrow> (Some e, doc1)
      | (None, doc1) \<Rightarrow>
     (case forEachOrThrow (hasAttribute ''data-i18n-aria-label'')
             (translateAriaLabel inherited translations) doc1 of
        (Some e, doc2) \<Rightarrow> (Some e, doc2)
      | (None, doc2) \<Rightarrow>
     (let metaTitle = getNestedValue inherited translations ''meta.title'';
          metaDesc = getNestedValue inherited translations ''meta.description''
      in case setTitle metaTitle doc2 of
           Inl e \<Rightarrow> (Some e, doc2)
         | Inr doc3 \<Rightarrow>
             (case setDescription metaDesc doc3 of
                Inl e \<Rightarrow> (Some e, doc3)
              | Inr doc4 \<Rightarrow> (None, doc4)))))"

subsection \<open>The picker\<close>

text \<open>The body of the loop over the elements of class \<open>lang-option\<close>.\<close>

definition markActive :: "string \<Rightarrow> element \<Rightarrow> element" where
  "markActive activeLang btn =
     (let lang = getAttribute btn ''data-lang'' in
      setAttribute ''aria-current'' (if lang = Some activeLang then ''true'' else ''false'')
        (classList_toggle ''active'' (lang = Some activeLang) btn))"

definition updatePicker :: "string \<Rightarrow> dom_document \<Rightarrow> dom_document" where
  "updatePicker activeLang doc =
     (let doc1 = forEachSelected (hasClass ''lang-option'') (markActive activeLang) doc;
          htmlLang = (if activeLang = ''pt-BR'' then ''pt-BR'' else activeLang)
      in doc1\<lparr>documentElement := setAttribute ''lang'' htmlLang (documentElement doc1)\<rparr>)"

subsection \<open>Loading a bundle\<close>

text \<open>
  What the script does to the world outside the page, in order: writes to the storage,
  requests to the network, warnings on the console.
\<close>

datatype event = SetItem string string | Fetch string | Warn string

text \<open>
  The state the module works on: the browser's storage, the module's cache of bundles,
  the page, and the events so far. The storage is taken to be there and to accept the
  write: a browser that refuses access to it is outside the model.
\<close>

record world =
  localStorage :: "string \<rightharpoonup> string"
  translationCache :: "string \<rightharpoonup> jsval"
  document :: dom_document
  history :: "event list"

text \<open>The number of requests to the network among the events.\<close>

fun networkAccesses :: "event list \<Rightarrow> nat" where
  "networkAccesses [] = 0"
| "networkAccesses (Fetch url # es) = Suc (networkAccesses es)"
| "networkAccesses (e # es) = networkAccesses es"

text \<open>
  The answer of the network to a request: no answer at all, or a response with a status
  and a body, which is a JSON value or does not parse. The network of one call maps
  each URL to its answer.
\<close>

datatype response = NetworkError | Response nat "jsval option"

type_synonym network = "string \<Rightarrow> response"

text \<open>What the \<open>try\<close> block of \<open>loadTranslation\<close> throws.\<close>

datatype failure = FetchRejected | HttpError nat | JsonError

text \<open>
  The \<open>try\<close> block after the request: a rejected \<open>fetch\<close>, a status outside 200..299
  (\<open>!response.ok\<close>) and a body that is not JSON are failures.
\<close>

definition readBundle :: "response \<Rightarrow> failure + jsval" where
  "readBundle r =
     (case r of
        NetworkError \<Rightarrow> Inl FetchRejected
      | Response status body \<Rightarrow>
          if \<not> (200 \<le> status \<and> status \<le> 299) then Inl (HttpError status)
          else (case body of None \<Rightarrow> Inl JsonError | Some data \<Rightarrow> Inr data))"

definition bundleUrl :: "string \<Rightarrow> string" where
  "bundleUrl lang = ''i18n/'' @ lang @ ''.json''"

definition warning :: "string \<Rightarrow> string" where
  "warning lang = ''[i18n] Failed to load '' @ lang @ '', falling back to '' @ DEFAULT_LANG"

text \<open>
  \<open>translationCache[lang]\<close>: \<open>undefined\<close> for a code with no entry. The cache is
  read by its own entries: the names every object inherits (\<open>constructor\<close> and the
  like) are not language codes, and the module loads the supported codes only.
\<close>

definition cached :: "world \<Rightarrow> string \<Rightarrow> jsval" where
  "cached w lang = (case translationCache w lang of Some v \<Rightarrow> v | None \<Rightarrow> JUndefined)"

text \<open>
  \<open>loadTranslation\<close>, run to its end: the bundle its promise resolves to and the world
  it leaves. The function calls itself once at most, for the default language. A call is
  modelled as one step: nothing else runs between its request and its answer, so two
  calls follow one another and do not overlap.
\<close>

function loadTranslation :: "network \<Rightarrow> string \<Rightarrow> world \<Rightarrow> jsval \<times> world" where
  "loadTranslation net lang w =
     (if truthy (cached w lang) then (cached w lang, w)
      else
        (let w1 = w\<lparr>history := history w @ [Fetch (bundleUrl lang)]\<rparr> in
         case readBundle (net (bundleUrl lang)) of
           Inr data \<Rightarrow> (data, w1\<lparr>translationCache := (translationCache w1)(lang \<mapsto> data)\<rparr>)
         | Inl err \<Rightarrow>
             (let w2 = w1\<lparr>history := history w1 @ [Warn (warning lang)]\<rparr> in
              if lang \<noteq> DEFAULT_LANG then loadTranslation net DEFAULT_LANG w2
              else (JObj [], w2))))"
  by pat_completeness auto
termination
  by (relation "measure (\<lambda>(net, lang, w). if lang = DEFAULT_LANG then 0 else 1)") auto

declare loadTranslation.simps [simp del]

subsection \<open>Switching the language\<close>

text \<open>
  \<open>switchLanguage\<close>, run to its end: what its promise is rejected with, if anything, and
  the world it leaves. When \<open>applyTranslations\<close> throws, \<open>updatePicker\<close> is not reached.
\<close>

definition switchLanguage ::
  "builtins \<Rightarrow> network \<Rightarrow> string \<Rightarrow> world \<Rightarrow> exception option \<times> world" where
  "switchLanguage inherited net lang w =
     (if lang \<notin> set SUPPORTED_LANGS then (None, w)
      else
        (let w1 = w\<lparr>localStorage := (localStorage w)(I18N_STORAGE_KEY \<mapsto> lang),
                    history := history w @ [SetItem I18N_STORAGE_KEY lang]\<rparr>;
             (translations, w2) = loadTranslation net lang w1
         in case applyTranslations inherited translations (document w2) of
              (Some e, doc) \<Rightarrow> (Some e, w2\<lparr>document := doc\<rparr>)
            | (None, doc) \<Rightarrow> (None, w2\<lparr>document := updatePicker lang doc\<rparr>)))"

subsection \<open>The resolution order in the specification's words\<close>

text \<open>
  A locale matches a supported code by prefix when the code is the locale's primary
  subtag (the part before the first \<open>-\<close>), or starts with that subtag followed by
  \<open>-\<close>: \<open>de-AT\<close> matches \<open>de\<close>, and \<open>pt\<close> matches \<open>pt-BR\<close>.
\<close>

definition spec_primary :: "string \<Rightarrow> string" where
  "spec_primary locale = takeWhile (\<lambda>x. x \<noteq> CHR ''-'') locale"

definition spec_prefixMatch :: "string \<Rightarrow> string \<Rightarrow> bool" where
  "spec_prefixMatch locale code =
     (code = spec_primary locale \<or> prefix (spec_primary locale @ ''-'') code)"

text \<open>A locale has a match when it is a supported code, or matches one by prefix.\<close>

definition spec_hasMatch :: "string list \<Rightarrow> string \<Rightarrow> bool" where
  "spec_hasMatch supported locale =
     (locale \<in> set supported \<or> (\<exists>code \<in> set supported. spec_prefixMatch locale code))"

text \<open>The match of a locale: exact first, else the first supported code it matches by prefix.\<close>

definition spec_bestMatch :: "string list \<Rightarrow> string \<Rightarrow> string option" where
  "spec_bestMatch supported locale =
     (if locale \<in> set supported then Some locale
      else List.find (spec_prefixMatch locale) supported)"

subsection \<open>Example inputs\<close>

text \<open>A network that answers no request.\<close>

definition offline :: network where
  "offline url = NetworkError"

text \<open>A page of a root element alone, and the world of a page just loaded.\<close>

definition htmlElement :: element where
  "htmlElement = \<lparr>tagName = ''html'', attributes = [(''lang'', ''en'')], classList = [],
     textContent = []\<rparr>"

definition freshWorld :: "element list \<Rightarrow> world" where
  "freshWorld els =
     \<lparr>localStorage = Map.empty, translationCache = Map.empty,
      document = \<lparr>documentElement = htmlElement, descendants = els, title = ''Home''\<rparr>,
      history = []\<rparr>"

text \<open>
  A network that serves one bundle, at the URL of one language, and answers no other
  request. The bundle \<open>{hero: {subtitle: "Ol\<acute>a"}}\<close>, with the text in UTF-8.
\<close>

definition serving :: "string \<Rightarrow> jsval \<Rightarrow> network" where
  "serving lang bundle url =
     (if url = bundleUrl lang then Response 200 (Some bundle) else NetworkError)"

definition heroBundle :: jsval where
  "heroBundle = JObj [(''hero'', JObj [(''subtitle'', JStr (''Ol'' @ [CHR 0xC3, CHR 0xA1]))])]"




text \<open>
  An element marked for the text \<open>hero.subtitle\<close>, a control of the language picker,
  and an English bundle.
\<close>

definition heroSubtitle :: element where
  "heroSubtitle =
     \<lparr>tagName = ''p'', attributes = [(''data-i18n'', ''hero.subtitle'')], classList = [],
      textContent = ''Hi''\<rparr>"

definition langOption :: "string \<Rightarrow> element" where
  "langOption lang =
     \<lparr>tagName = ''button'', attributes = [(''data-lang'', lang), (''aria-current'', ''false'')],
      classList = [''lang-option''], textContent = lang\<rparr>"

definition englishBundle :: jsval where
  "englishBundle = JObj [(''hero'', JObj [(''subtitle'', JStr ''Hello'')])]"

text \<open>
  A part of what a browser provides: every object has a \<open>constructor\<close>. And a bundle
  whose subtitle is an object that cannot be converted to a string.
\<close>

definition objectBuiltins :: builtins where
  "objectBuiltins v key =
     (case v of
        JObj kvs \<Rightarrow>
          if key = ''constructor'' then JFunction ''function Object() { [native code] }''
          else JUndefined
      | _ \<Rightarrow> JUndefined)"

definition brokenBundle :: jsval where
  "brokenBundle = JObj [(''hero'', JObj [(''subtitle'', JObj [(''toString'', JStr ''x'')])])]"





section \<open>Properties\<close>

subsection \<open>Strings\<close>

lemma splitOn_not_empty: "splitOn c s \<noteq> []"
  by (induction s) (auto split: list.splits)

lemma hd_splitOn: "hd (splitOn c s) = takeWhile (\<lambda>x. x \<noteq> c) s"
  by (induction s) (auto split: list.splits simp: splitOn_not_empty)

subsection \<open>Language resolution\<close>

lemma find_in_set: "List.find P xs = Some x \<Longrightarrow> x \<in> set xs"
  by (induction xs) (auto split: if_splits)

lemma detectFrom_supported: "detectFrom supported langs = Some l \<Longrightarrow> l \<in> set supported"
  by (induction langs) (auto simp: Let_def split: if_splits option.splits dest: find_in_set)

text \<open>
  C1. For every stored preference (none, or any string) and every browser (with or
  without a locale list, whatever the locales are), \<open>resolveLanguage\<close> returns one of
  the supported codes \<open>en\<close>, \<open>pt-BR\<close>, \<open>de\<close>. The function is total: no input makes it
  fail.
\<close>

theorem resolveLanguage_supported:
  "resolveLanguage storage nav \<in> {''en'', ''pt-BR'', ''de''}
   \<and> resolveLanguage storage nav \<in> set SUPPORTED_LANGS"
proof -
  have d: "DEFAULT_LANG \<in> set SUPPORTED_LANGS"
    by (simp add: DEFAULT_LANG_def SUPPORTED_LANGS_def)
  have b: "l \<in> set SUPPORTED_LANGS" if "detectBrowserLang nav = Some l" for l
    using that detectFrom_supported unfolding detectBrowserLang_def by blast
  have "resolveLanguage storage nav \<in> set SUPPORTED_LANGS"
    unfolding resolveLanguage_def
    by (cases "storage I18N_STORAGE_KEY"; cases "detectBrowserLang nav") (simp_all add: d b)
  moreover have "set SUPPORTED_LANGS = {''en'', ''pt-BR'', ''de''}"
    by (simp add: SUPPORTED_LANGS_def)
  ultimately show ?thesis by simp
qed

lemma find_None_set: "List.find P xs = None \<longleftrightarrow> (\<forall>x \<in> set xs. \<not> P x)"
  by (induction xs) auto

lemma code_prefix_test:
  "(\<lambda>s. s = hd (splitOn CHR ''-'' l) \<or> startsWith s (hd (splitOn CHR ''-'' l) @ ''-''))
     = spec_prefixMatch l"
  by (simp add: fun_eq_iff spec_prefixMatch_def spec_primary_def startsWith_def hd_splitOn)

text \<open>
  The loop returns the match of the first locale that has one, provided no supported
  code is the empty string.
\<close>

lemma detectFrom_first_match:
  assumes "[] \<notin> set supported"
  shows "detectFrom supported langs =
           (case List.find (spec_hasMatch supported) langs of
              None \<Rightarrow> None
            | Some l \<Rightarrow> spec_bestMatch supported l)"
proof (induction langs)
  case Nil
  show ?case by simp
next
  case (Cons l rest)
  show ?case
  proof (cases "l \<in> set supported")
    case True
    then show ?thesis by (simp add: spec_hasMatch_def spec_bestMatch_def)
  next
    case False
    show ?thesis
    proof (cases "List.find (spec_prefixMatch l) supported")
      case None
      then have "\<not> spec_hasMatch supported l"
        using False by (simp add: spec_hasMatch_def find_None_set)
      then show ?thesis
        using False None Cons.IH by (simp add: code_prefix_test)
    next
      case (Some m)
      then have m: "m \<in> set supported" "spec_prefixMatch l m"
        by (auto simp: find_Some_iff)
      then have "truthyString m" "spec_hasMatch supported l"
        using assms by (auto simp: truthyString_def spec_hasMatch_def)
      then show ?thesis
        using False Some by (simp add: code_prefix_test spec_bestMatch_def)
    qed
  qed
qed

lemma detectBrowserLang_first_match:
  "detectBrowserLang nav =
     (case List.find (spec_hasMatch SUPPORTED_LANGS) (browserLocales nav) of
        None \<Rightarrow> None
      | Some l \<Rightarrow> spec_bestMatch SUPPORTED_LANGS l)"
  unfolding detectBrowserLang_def
  by (rule detectFrom_first_match) (simp add: SUPPORTED_LANGS_def)

lemma resolveLanguage_stored:
  "storage I18N_STORAGE_KEY = Some s \<Longrightarrow> s \<in> set SUPPORTED_LANGS
     \<Longrightarrow> resolveLanguage storage nav = s"
  by (auto simp: resolveLanguage_def truthyString_def SUPPORTED_LANGS_def)

lemma resolveLanguage_detected:
  assumes "\<forall>s. storage I18N_STORAGE_KEY = Some s \<longrightarrow> s \<notin> set SUPPORTED_LANGS"
  shows "resolveLanguage storage nav =
           (case detectBrowserLang nav of None \<Rightarrow> DEFAULT_LANG | Some l \<Rightarrow> l)"
proof -
  have t: "truthyString l" if "detectBrowserLang nav = Some l" for l
    using detectFrom_supported [of SUPPORTED_LANGS "browserLocales nav" l] that
    by (auto simp: detectBrowserLang_def truthyString_def SUPPORTED_LANGS_def)
  show ?thesis
    using assms
    by (cases "storage I18N_STORAGE_KEY"; cases "detectBrowserLang nav")
       (simp_all add: resolveLanguage_def t)
qed

text \<open>
  The locales are tried one at a time, each for an exact and then for a prefix match,
  and a prefix match of an earlier locale wins over an exact match of a later one.
\<close>

lemma detect_earlier_prefix_match_wins:
  "detectBrowserLang \<lparr>languages = Some [''de-AT'', ''en''], language = ''de-AT''\<rparr> = Some ''de''"
  by (simp add: detectBrowserLang_def browserLocales_def SUPPORTED_LANGS_def startsWith_def
      truthyString_def)

text \<open>
  C2. The order of precedence of \<open>resolveLanguage\<close>. A stored preference that is a
  supported code is returned, whatever the browser's locales are. Otherwise the browser's
  locales are scanned in order, and the first locale that has a match decides: the locale
  itself when it is a supported code, else the first supported code it matches by
  prefix. When no locale has a match, the result is the default code \<open>en\<close>. For the
  locales \<open>fr-FR\<close>, \<open>de-AT\<close> and no stored preference the result is \<open>de\<close>, with the
  supported codes \<open>en\<close>, \<open>de\<close> as with the three codes of the program.
\<close>

theorem resolveLanguage_precedence:
  "(storage I18N_STORAGE_KEY = Some s \<and> s \<in> set SUPPORTED_LANGS
      \<longrightarrow> resolveLanguage storage nav = s)
   \<and> ((\<forall>s. storage I18N_STORAGE_KEY = Some s \<longrightarrow> s \<notin> set SUPPORTED_LANGS) \<longrightarrow>
        (case List.find (spec_hasMatch SUPPORTED_LANGS) (browserLocales nav) of
           None \<Rightarrow> resolveLanguage storage nav = DEFAULT_LANG \<and> DEFAULT_LANG = ''en''
         | Some l \<Rightarrow>
             (l \<in> set SUPPORTED_LANGS \<longrightarrow> resolveLanguage storage nav = l)
             \<and> (l \<notin> set SUPPORTED_LANGS \<longrightarrow>
                  List.find (spec_prefixMatch l) SUPPORTED_LANGS
                    = Some (resolveLanguage storage nav))))
   \<and> detectFrom [''en'', ''de''] [''fr-FR'', ''de-AT''] = Some ''de''
   \<and> resolveLanguage Map.empty \<lparr>languages = Some [''fr-FR'', ''de-AT''], language = ''fr-FR''\<rparr>
       = ''de''"
proof (intro conjI impI)
  assume "storage I18N_STORAGE_KEY = Some s \<and> s \<in> set SUPPORTED_LANGS"
  then show "resolveLanguage storage nav = s"
    by (simp add: resolveLanguage_stored)
next
  assume a: "\<forall>s. storage I18N_STORAGE_KEY = Some s \<longrightarrow> s \<notin> set SUPPORTED_LANGS"
  have d: "resolveLanguage storage nav =
             (case detectBrowserLang nav of None \<Rightarrow> DEFAULT_LANG | Some l \<Rightarrow> l)"
    using a by (rule resolveLanguage_detected)
  show "case List.find (spec_hasMatch SUPPORTED_LANGS) (browserLocales nav) of
           None \<Rightarrow> resolveLanguage storage nav = DEFAULT_LANG \<and> DEFAULT_LANG = ''en''
         | Some l \<Rightarrow>
             (l \<in> set SUPPORTED_LANGS \<longrightarrow> resolveLanguage storage nav = l)
             \<and> (l \<notin> set SUPPORTED_LANGS \<longrightarrow>
                  List.find (spec_prefixMatch l) SUPPORTED_LANGS
                    = Some (resolveLanguage storage nav))"
  proof (cases "List.find (spec_hasMatch SUPPORTED_LANGS) (browserLocales nav)")
    case None
    then show ?thesis
      by (simp add: d detectBrowserLang_first_match DEFAULT_LANG_def)
  next
    case (Some l)
    have "spec_hasMatch SUPPORTED_LANGS l"
      using Some by (auto simp: find_Some_iff)
    then have "\<exists>m. spec_bestMatch SUPPORTED_LANGS l = Some m"
      by (cases "List.find (spec_prefixMatch l) SUPPORTED_LANGS")
         (auto simp: spec_hasMatch_def spec_bestMatch_def find_None_set)
    then obtain m where m: "spec_bestMatch SUPPORTED_LANGS l = Some m" ..
    have r: "resolveLanguage storage nav = m"
      by (simp add: d detectBrowserLang_first_match Some m)
    show ?thesis
      using m by (simp add: Some r spec_bestMatch_def split: if_splits)
  qed
next
  show "detectFrom [''en'', ''de''] [''fr-FR'', ''de-AT''] = Some ''de''"
    by (simp add: startsWith_def truthyString_def)
next
  show "resolveLanguage Map.empty \<lparr>languages = Some [''fr-FR'', ''de-AT''], language = ''fr-FR''\<rparr>
       = ''de''"
    by (simp add: resolveLanguage_def detectBrowserLang_def browserLocales_def
        SUPPORTED_LANGS_def startsWith_def truthyString_def)
qed

theorem resolveLanguage_precedence_witness:
  "resolveLanguage [I18N_STORAGE_KEY \<mapsto> ''pt-BR''] \<lparr>languages = Some [''de''], language = ''de''\<rparr>
     = ''pt-BR''
   \<and> resolveLanguage [I18N_STORAGE_KEY \<mapsto> ''xx''] \<lparr>languages = Some [''fr-FR'', ''pt''], language = ''fr-FR''\<rparr>
     = ''pt-BR''
   \<and> resolveLanguage Map.empty \<lparr>languages = Some [''fr'', ''de'', ''en''], language = ''fr''\<rparr>
     = ''de''
   \<and> resolveLanguage Map.empty \<lparr>languages = None, language = ''ja-JP''\<rparr> = ''en''"
proof -
  have evals:
    "spec_primary ''fr-FR'' = ''fr''" "spec_primary ''pt'' = ''pt''"
    "spec_primary ''fr'' = ''fr''" "spec_primary ''de'' = ''de''"
    "spec_primary ''ja-JP'' = ''ja''"
    by (simp_all add: spec_primary_def)
  note defs = spec_hasMatch_def spec_prefixMatch_def browserLocales_def SUPPORTED_LANGS_def
    DEFAULT_LANG_def evals
  have 1: "resolveLanguage [I18N_STORAGE_KEY \<mapsto> ''pt-BR''] \<lparr>languages = Some [''de''], language = ''de''\<rparr>
     = ''pt-BR''"
    using resolveLanguage_precedence
      [of "[I18N_STORAGE_KEY \<mapsto> ''pt-BR'']" "''pt-BR''" "\<lparr>languages = Some [''de''], language = ''de''\<rparr>"]
    by (simp add: SUPPORTED_LANGS_def)
  have 2: "resolveLanguage [I18N_STORAGE_KEY \<mapsto> ''xx''] \<lparr>languages = Some [''fr-FR'', ''pt''], language = ''fr-FR''\<rparr>
     = ''pt-BR''"
    using resolveLanguage_precedence
      [of "[I18N_STORAGE_KEY \<mapsto> ''xx'']" _ "\<lparr>languages = Some [''fr-FR'', ''pt''], language = ''fr-FR''\<rparr>"]
    by (simp add: defs)
  have 3: "resolveLanguage Map.empty \<lparr>languages = Some [''fr'', ''de'', ''en''], language = ''fr''\<rparr>
     = ''de''"
    using resolveLanguage_precedence
      [of Map.empty _ "\<lparr>languages = Some [''fr'', ''de'', ''en''], language = ''fr''\<rparr>"]
    by (simp add: defs)
  have 4: "resolveLanguage Map.empty \<lparr>languages = None, language = ''ja-JP''\<rparr> = ''en''"
    using resolveLanguage_precedence
      [of Map.empty _ "\<lparr>languages = None, language = ''ja-JP''\<rparr>"]
    by (simp add: defs)
  show ?thesis using 1 2 3 4 by simp
qed

subsection \<open>Loading a bundle\<close>

lemma networkAccesses_append:
  "networkAccesses (xs @ ys) = networkAccesses xs + networkAccesses ys"
  by (induction xs rule: networkAccesses.induct) simp_all

lemma cached_history [simp]: "cached (w\<lparr>history := h\<rparr>) lang = cached w lang"
  by (simp add: cached_def)

lemma cached_update [simp]:
  "cached (w\<lparr>translationCache := (translationCache w)(lang \<mapsto> data)\<rparr>) lang = data"
  by (simp add: cached_def)

text \<open>The four ways through \<open>loadTranslation\<close>.\<close>

lemma loadTranslation_hit:
  "truthy (cached w lang) \<Longrightarrow> loadTranslation net lang w = (cached w lang, w)"
  by (simp add: loadTranslation.simps)

lemma loadTranslation_fetched:
  assumes "\<not> truthy (cached w lang)" and "readBundle (net (bundleUrl lang)) = Inr data"
  shows "loadTranslation net lang w =
           (data, w\<lparr>history := history w @ [Fetch (bundleUrl lang)],
                     translationCache := (translationCache w)(lang \<mapsto> data)\<rparr>)"
  using assms by (simp add: loadTranslation.simps [of net lang w])

lemma loadTranslation_default_failed:
  assumes "\<not> truthy (cached w DEFAULT_LANG)"
    and "readBundle (net (bundleUrl DEFAULT_LANG)) = Inl err"
  shows "loadTranslation net DEFAULT_LANG w =
           (JObj [], w\<lparr>history := history w @
                        [Fetch (bundleUrl DEFAULT_LANG), Warn (warning DEFAULT_LANG)]\<rparr>)"
  using assms by (simp add: loadTranslation.simps [of net DEFAULT_LANG w])

lemma loadTranslation_fallback:
  assumes "\<not> truthy (cached w lang)" and "readBundle (net (bundleUrl lang)) = Inl err"
    and "lang \<noteq> DEFAULT_LANG"
  shows "loadTranslation net lang w =
           loadTranslation net DEFAULT_LANG
             (w\<lparr>history := history w @ [Fetch (bundleUrl lang), Warn (warning lang)]\<rparr>)"
  using assms by (simp add: loadTranslation.simps [of net lang w])

text \<open>The call for the default language is answered without a further call.\<close>

lemma loadTranslation_default:
  "loadTranslation net DEFAULT_LANG w =
     (if truthy (cached w DEFAULT_LANG) then (cached w DEFAULT_LANG, w)
      else (case readBundle (net (bundleUrl DEFAULT_LANG)) of
              Inr data \<Rightarrow>
                (data, w\<lparr>history := history w @ [Fetch (bundleUrl DEFAULT_LANG)],
                          translationCache := (translationCache w)(DEFAULT_LANG \<mapsto> data)\<rparr>)
            | Inl err \<Rightarrow>
                (JObj [], w\<lparr>history := history w @
                             [Fetch (bundleUrl DEFAULT_LANG), Warn (warning DEFAULT_LANG)]\<rparr>)))"
  by (simp add: loadTranslation.simps [of net DEFAULT_LANG w] split: sum.splits)

text \<open>\<open>loadTranslation\<close> writes to the cache and to the events only.\<close>

lemma loadTranslation_frame:
  "document (snd (loadTranslation net lang w)) = document w
   \<and> localStorage (snd (loadTranslation net lang w)) = localStorage w"
proof -
  have d: "document (snd (loadTranslation net DEFAULT_LANG v)) = document v
           \<and> localStorage (snd (loadTranslation net DEFAULT_LANG v)) = localStorage v" for v
    by (simp add: loadTranslation_default split: sum.splits)
  show ?thesis
  proof (cases "lang = DEFAULT_LANG")
    case True
    then show ?thesis by (simp add: d)
  next
    case False
    then show ?thesis
      by (simp add: loadTranslation.simps [of net lang w] d Let_def split: sum.splits)
  qed
qed

lemma loadTranslation_default_cache:
  "code \<noteq> DEFAULT_LANG \<Longrightarrow>
     translationCache (snd (loadTranslation net DEFAULT_LANG w)) code = translationCache w code"
  by (simp add: loadTranslation_default split: sum.splits)

lemma loadTranslation_default_accesses:
  "networkAccesses (history (snd (loadTranslation net DEFAULT_LANG w)))
     \<le> networkAccesses (history w) + 1"
  by (simp add: loadTranslation_default networkAccesses_append split: sum.splits)

text \<open>
  C3, as the code has it. A call that finds a truthy value in the cache under its code
  returns that value and leaves the world as it is: no request is made. A call that
  finds none and whose request succeeds stores the bundle under its code and makes that
  one request. So when the first of two calls, one after the other, for the same code is
  served from the cache, or its request succeeds with a truthy bundle (any JSON object
  is one), the second call returns the same bundle, changes nothing, and the two calls
  together make at most one request, whatever the network does at the second call.
\<close>

theorem loadTranslation_second_call_cached:
  "(truthy (cached w lang) \<longrightarrow> loadTranslation net lang w = (cached w lang, w))
   \<and> (\<not> truthy (cached w lang) \<and> readBundle (net (bundleUrl lang)) = Inr data \<longrightarrow>
        loadTranslation net lang w =
          (data, w\<lparr>history := history w @ [Fetch (bundleUrl lang)],
                    translationCache := (translationCache w)(lang \<mapsto> data)\<rparr>))
   \<and> (truthy (cached w lang)
          \<or> (readBundle (net (bundleUrl lang)) = Inr data \<and> truthy data) \<longrightarrow>
        loadTranslation net' lang (snd (loadTranslation net lang w)) = loadTranslation net lang w
        \<and> networkAccesses (history (snd (loadTranslation net' lang (snd (loadTranslation net lang w)))))
            \<le> networkAccesses (history w) + 1)"
proof (intro conjI impI)
  assume "truthy (cached w lang)"
  then show "loadTranslation net lang w = (cached w lang, w)"
    by (rule loadTranslation_hit)
next
  assume "\<not> truthy (cached w lang) \<and> readBundle (net (bundleUrl lang)) = Inr data"
  then show "loadTranslation net lang w =
          (data, w\<lparr>history := history w @ [Fetch (bundleUrl lang)],
                    translationCache := (translationCache w)(lang \<mapsto> data)\<rparr>)"
    by (simp add: loadTranslation_fetched)
next
  assume a: "truthy (cached w lang) \<or> (readBundle (net (bundleUrl lang)) = Inr data \<and> truthy data)"
  have "loadTranslation net' lang (snd (loadTranslation net lang w)) = loadTranslation net lang w
        \<and> networkAccesses (history (snd (loadTranslation net lang w)))
            \<le> networkAccesses (history w) + 1"
  proof (cases "truthy (cached w lang)")
    case True
    then show ?thesis by (simp add: loadTranslation_hit)
  next
    case False
    with a have f: "readBundle (net (bundleUrl lang)) = Inr data" and t: "truthy data"
      by simp_all
    have "loadTranslation net lang w =
            (data, w\<lparr>history := history w @ [Fetch (bundleUrl lang)],
                      translationCache := (translationCache w)(lang \<mapsto> data)\<rparr>)"
      using False f by (rule loadTranslation_fetched)
    then show ?thesis
      by (simp add: loadTranslation_hit t networkAccesses_append cached_def)
  qed
  then show "loadTranslation net' lang (snd (loadTranslation net lang w)) = loadTranslation net lang w"
    and "networkAccesses (history (snd (loadTranslation net' lang (snd (loadTranslation net lang w)))))
            \<le> networkAccesses (history w) + 1"
    by simp_all
qed

theorem loadTranslation_second_call_cached_witness:
  "loadTranslation (serving ''de'' heroBundle) ''de'' (freshWorld [])
     = (heroBundle,
        (freshWorld [])\<lparr>history := [Fetch ''i18n/de.json''],
                        translationCache := [''de'' \<mapsto> heroBundle]\<rparr>)
   \<and> loadTranslation offline ''de'' (snd (loadTranslation (serving ''de'' heroBundle) ''de'' (freshWorld [])))
     = loadTranslation (serving ''de'' heroBundle) ''de'' (freshWorld [])
   \<and> networkAccesses (history (snd (loadTranslation offline ''de''
        (snd (loadTranslation (serving ''de'' heroBundle) ''de'' (freshWorld [])))))) \<le> 1
   \<and> loadTranslation offline ''de''
        ((freshWorld [])\<lparr>translationCache := [''de'' \<mapsto> heroBundle]\<rparr>)
     = (heroBundle, (freshWorld [])\<lparr>translationCache := [''de'' \<mapsto> heroBundle]\<rparr>)"
proof -
  have r: "readBundle (serving ''de'' heroBundle (bundleUrl ''de'')) = Inr heroBundle"
    by (simp add: serving_def readBundle_def)
  have t: "truthy heroBundle"
    by (simp add: heroBundle_def)
  have m: "\<not> truthy (cached (freshWorld []) ''de'')"
    by (simp add: cached_def freshWorld_def)
  have c: "cached ((freshWorld [])\<lparr>translationCache := [''de'' \<mapsto> heroBundle]\<rparr>) ''de'' = heroBundle"
    by (simp add: cached_def)
  have u: "bundleUrl ''de'' = ''i18n/de.json''"
    by (simp add: bundleUrl_def)
  have e: "history (freshWorld []) = []" "translationCache (freshWorld []) = Map.empty"
    by (simp_all add: freshWorld_def)
  note first = loadTranslation_second_call_cached
    [of "freshWorld []" "''de''" "serving ''de'' heroBundle" heroBundle offline]
  note second = loadTranslation_second_call_cached
    [of "(freshWorld [])\<lparr>translationCache := [''de'' \<mapsto> heroBundle]\<rparr>" "''de''" offline]
  have 1: "loadTranslation (serving ''de'' heroBundle) ''de'' (freshWorld [])
     = (heroBundle,
        (freshWorld [])\<lparr>history := [Fetch ''i18n/de.json''],
                        translationCache := [''de'' \<mapsto> heroBundle]\<rparr>)"
    using first r m by (simp add: u e)
  have 2: "loadTranslation offline ''de'' (snd (loadTranslation (serving ''de'' heroBundle) ''de'' (freshWorld [])))
     = loadTranslation (serving ''de'' heroBundle) ''de'' (freshWorld [])"
    using first r t by blast
  have 3: "networkAccesses (history (snd (loadTranslation offline ''de''
        (snd (loadTranslation (serving ''de'' heroBundle) ''de'' (freshWorld [])))))) \<le> 1"
  proof -
    have "networkAccesses (history (snd (loadTranslation offline ''de''
        (snd (loadTranslation (serving ''de'' heroBundle) ''de'' (freshWorld []))))))
          \<le> networkAccesses (history (freshWorld [])) + 1"
      using first r t by blast
    then show ?thesis
      by (simp only: e networkAccesses.simps)
  qed
  have 4: "loadTranslation offline ''de''
        ((freshWorld [])\<lparr>translationCache := [''de'' \<mapsto> heroBundle]\<rparr>)
     = (heroBundle, (freshWorld [])\<lparr>translationCache := [''de'' \<mapsto> heroBundle]\<rparr>)"
    using second t by (simp add: c)
  show ?thesis
    using 1 2 3 4 by blast
qed

text \<open>
  C3, as the claim states it, fails where the request fails: nothing is cached, and the
  second call asks the network again. With no network, two calls for \<open>en\<close> make two
  requests.
\<close>

theorem loadTranslation_twice_counterexample:
  "\<not> networkAccesses (history (snd (loadTranslation offline ''en''
        (snd (loadTranslation offline ''en'' (freshWorld [])))))) \<le> 1"
proof -
  have r: "readBundle (offline url) = Inl FetchRejected" for url
    by (simp add: offline_def readBundle_def)
  have "loadTranslation offline DEFAULT_LANG (snd (loadTranslation offline DEFAULT_LANG (freshWorld [])))
      = (JObj [], (freshWorld [])\<lparr>history :=
           [Fetch (bundleUrl DEFAULT_LANG), Warn (warning DEFAULT_LANG),
            Fetch (bundleUrl DEFAULT_LANG), Warn (warning DEFAULT_LANG)]\<rparr>)"
    by (simp add: loadTranslation_default r cached_def freshWorld_def)
  then show ?thesis
    by (simp add: DEFAULT_LANG_def)
qed

text \<open>
  C4. When the cache has no bundle for the code and the request fails (no answer, a
  status that is not a success, or a body that is not JSON), \<open>loadTranslation\<close> logs
  one warning for the code. For the default language it then returns the empty bundle.
  For any other code it hands over to the call for the default language, and that call
  makes no further call: it returns the cached default bundle, or the fetched one, or,
  when its request fails too, logs a second warning and returns the empty bundle. At
  most two requests are made, a bundle is returned in every case, and the page and the
  stored preference are as before: the warnings are all that shows.
\<close>

theorem loadTranslation_failure_falls_back:
  assumes "\<not> truthy (cached w lang)" and "readBundle (net (bundleUrl lang)) = Inl err"
  shows
    "(let w2 = w\<lparr>history := history w @ [Fetch (bundleUrl lang), Warn (warning lang)]\<rparr>;
          w' = snd (loadTranslation net lang w)
      in (lang = DEFAULT_LANG \<longrightarrow> loadTranslation net lang w = (JObj [], w2))
         \<and> (lang \<noteq> DEFAULT_LANG \<longrightarrow>
              loadTranslation net lang w = loadTranslation net DEFAULT_LANG w2
              \<and> loadTranslation net DEFAULT_LANG w2 =
                  (if truthy (cached w DEFAULT_LANG) then (cached w DEFAULT_LANG, w2)
                   else (case readBundle (net (bundleUrl DEFAULT_LANG)) of
                           Inr data \<Rightarrow>
                             (data, w2\<lparr>history := history w2 @ [Fetch (bundleUrl DEFAULT_LANG)],
                                        translationCache :=
                                          (translationCache w)(DEFAULT_LANG \<mapsto> data)\<rparr>)
                         | Inl err' \<Rightarrow>
                             (JObj [], w2\<lparr>history := history w2 @
                                [Fetch (bundleUrl DEFAULT_LANG), Warn (warning DEFAULT_LANG)]\<rparr>))))
         \<and> networkAccesses (history w') \<le> networkAccesses (history w) + 2
         \<and> document w' = document w
         \<and> localStorage w' = localStorage w)"
proof -
  define w2 where "w2 = w\<lparr>history := history w @ [Fetch (bundleUrl lang), Warn (warning lang)]\<rparr>"
  have a: "networkAccesses (history w2) = networkAccesses (history w) + 1"
    by (simp add: w2_def networkAccesses_append)
  have 1: "loadTranslation net lang w = (JObj [], w2)" if "lang = DEFAULT_LANG"
    using assms that unfolding w2_def by (simp add: loadTranslation_default_failed)
  have 2: "loadTranslation net lang w = loadTranslation net DEFAULT_LANG w2"
    if "lang \<noteq> DEFAULT_LANG"
    using assms that unfolding w2_def by (simp add: loadTranslation_fallback)
  have 3: "loadTranslation net DEFAULT_LANG w2 =
             (if truthy (cached w DEFAULT_LANG) then (cached w DEFAULT_LANG, w2)
              else (case readBundle (net (bundleUrl DEFAULT_LANG)) of
                      Inr data \<Rightarrow>
                        (data, w2\<lparr>history := history w2 @ [Fetch (bundleUrl DEFAULT_LANG)],
                                   translationCache :=
                                     (translationCache w)(DEFAULT_LANG \<mapsto> data)\<rparr>)
                    | Inl err' \<Rightarrow>
                        (JObj [], w2\<lparr>history := history w2 @
                           [Fetch (bundleUrl DEFAULT_LANG), Warn (warning DEFAULT_LANG)]\<rparr>)))"
  proof -
    have "translationCache w2 = translationCache w"
      by (simp add: w2_def)
    moreover have "cached w2 DEFAULT_LANG = cached w DEFAULT_LANG"
      by (simp add: w2_def)
    ultimately show ?thesis
      by (simp add: loadTranslation_default [of net w2] split: sum.splits)
  qed
  have 4: "networkAccesses (history (snd (loadTranslation net lang w)))
             \<le> networkAccesses (history w) + 2"
  proof (cases "lang = DEFAULT_LANG")
    case True
    show ?thesis by (simp add: 1 [OF True] a)
  next
    case False
    show ?thesis
      using loadTranslation_default_accesses [of net w2] by (simp add: 2 [OF False] a)
  qed
  show ?thesis
    unfolding Let_def w2_def [symmetric]
    using 1 2 3 4 loadTranslation_frame [of net lang w] by simp
qed

theorem loadTranslation_failure_falls_back_witness:
  "loadTranslation offline ''de'' (freshWorld [])
     = (JObj [], (freshWorld [])\<lparr>history :=
          [Fetch ''i18n/de.json'', Warn ''[i18n] Failed to load de, falling back to en'',
           Fetch ''i18n/en.json'', Warn ''[i18n] Failed to load en, falling back to en'']\<rparr>)
   \<and> loadTranslation offline ''en'' (freshWorld [])
     = (JObj [], (freshWorld [])\<lparr>history :=
          [Fetch ''i18n/en.json'', Warn ''[i18n] Failed to load en, falling back to en'']\<rparr>)
   \<and> loadTranslation (serving ''en'' heroBundle) ''de'' (freshWorld [])
     = (heroBundle, (freshWorld [])\<lparr>history :=
          [Fetch ''i18n/de.json'', Warn ''[i18n] Failed to load de, falling back to en'',
           Fetch ''i18n/en.json''],
          translationCache := [''en'' \<mapsto> heroBundle]\<rparr>)"
proof -
  have r: "readBundle (offline url) = Inl FetchRejected" for url
    by (simp add: offline_def readBundle_def)
  have s: "readBundle (serving ''en'' heroBundle (bundleUrl ''de'')) = Inl FetchRejected"
    "readBundle (serving ''en'' heroBundle (bundleUrl DEFAULT_LANG)) = Inr heroBundle"
    by (simp_all add: serving_def readBundle_def bundleUrl_def DEFAULT_LANG_def)
  have m: "\<not> truthy (cached (freshWorld []) lang)" for lang
    by (simp add: cached_def freshWorld_def)
  have d: "''de'' \<noteq> DEFAULT_LANG" "''en'' = DEFAULT_LANG"
    by (simp_all add: DEFAULT_LANG_def)
  have h: "history (freshWorld []) = []" "translationCache (freshWorld []) = Map.empty"
    by (simp_all add: freshWorld_def)
  note names = DEFAULT_LANG_def bundleUrl_def warning_def
  have 1: "loadTranslation offline ''de'' (freshWorld [])
     = (JObj [], (freshWorld [])\<lparr>history :=
          [Fetch ''i18n/de.json'', Warn ''[i18n] Failed to load de, falling back to en'',
           Fetch ''i18n/en.json'', Warn ''[i18n] Failed to load en, falling back to en'']\<rparr>)"
    using loadTranslation_failure_falls_back
      [of "freshWorld []" "''de''" offline FetchRejected, OF m r, unfolded Let_def,
       simplified d m r h, simplified]
    by (simp add: names)
  have 2: "loadTranslation offline ''en'' (freshWorld [])
     = (JObj [], (freshWorld [])\<lparr>history :=
          [Fetch ''i18n/en.json'', Warn ''[i18n] Failed to load en, falling back to en'']\<rparr>)"
    using loadTranslation_failure_falls_back
      [of "freshWorld []" "''en''" offline FetchRejected, OF m r, unfolded Let_def,
       simplified d m r h, simplified]
    by (simp add: names)
  have 3: "loadTranslation (serving ''en'' heroBundle) ''de'' (freshWorld [])
     = (heroBundle, (freshWorld [])\<lparr>history :=
          [Fetch ''i18n/de.json'', Warn ''[i18n] Failed to load de, falling back to en'',
           Fetch ''i18n/en.json''],
          translationCache := [''en'' \<mapsto> heroBundle]\<rparr>)"
    using loadTranslation_failure_falls_back
      [of "freshWorld []" "''de''" "serving ''en'' heroBundle" FetchRejected, OF m s(1),
       unfolded Let_def, simplified d(1) m s h, simplified]
    by (simp add: names)
  show ?thesis
    using 1 2 3 by blast
qed

text \<open>
  C9. When the cache has no bundle for the code and the request fails, the call writes
  nothing to the cache under that code: the entry is what it was, absent when it was
  absent. The only entry the call can write is the one of the default language, by its
  fallback, and when the failing code is the default language the cache is unchanged.
\<close>

theorem loadTranslation_failure_not_cached:
  assumes "\<not> truthy (cached w lang)" and "readBundle (net (bundleUrl lang)) = Inl err"
  shows
    "translationCache (snd (loadTranslation net lang w)) lang = translationCache w lang
     \<and> (translationCache w lang = None \<longrightarrow>
          translationCache (snd (loadTranslation net lang w)) lang = None)
     \<and> (\<forall>code. code \<noteq> DEFAULT_LANG \<longrightarrow>
          translationCache (snd (loadTranslation net lang w)) code = translationCache w code)
     \<and> (lang = DEFAULT_LANG \<longrightarrow>
          translationCache (snd (loadTranslation net lang w)) = translationCache w)"
proof (cases "lang = DEFAULT_LANG")
  case True
  then show ?thesis
    using assms by (simp add: loadTranslation_default_failed)
next
  case False
  have "translationCache (snd (loadTranslation net lang w)) code = translationCache w code"
    if "code \<noteq> DEFAULT_LANG" for code
  proof -
    have "loadTranslation net lang w =
            loadTranslation net DEFAULT_LANG
              (w\<lparr>history := history w @ [Fetch (bundleUrl lang), Warn (warning lang)]\<rparr>)"
      using assms False by (rule loadTranslation_fallback)
    then show ?thesis
      using that by (simp add: loadTranslation_default_cache)
  qed
  then show ?thesis
    using False by simp
qed

theorem loadTranslation_failure_not_cached_witness:
  "translationCache (snd (loadTranslation (serving ''en'' heroBundle) ''de'' (freshWorld []))) ''de''
     = None
   \<and> translationCache (snd (loadTranslation offline ''en'' (freshWorld []))) = Map.empty"
proof -
  have r: "readBundle (offline url) = Inl FetchRejected" for url
    by (simp add: offline_def readBundle_def)
  have s: "readBundle (serving ''en'' heroBundle (bundleUrl ''de'')) = Inl FetchRejected"
    by (simp add: serving_def readBundle_def bundleUrl_def)
  have m: "\<not> truthy (cached (freshWorld []) lang)" for lang
    by (simp add: cached_def freshWorld_def)
  have d: "''en'' = DEFAULT_LANG"
    by (simp add: DEFAULT_LANG_def)
  have h: "translationCache (freshWorld []) = Map.empty"
    by (simp add: freshWorld_def)
  have 1: "translationCache (snd (loadTranslation (serving ''en'' heroBundle) ''de'' (freshWorld []))) ''de''
     = None"
    using loadTranslation_failure_not_cached
      [of "freshWorld []" "''de''" "serving ''en'' heroBundle" FetchRejected, OF m s]
    by (simp add: h)
  have 2: "translationCache (snd (loadTranslation offline ''en'' (freshWorld []))) = Map.empty"
    using loadTranslation_failure_not_cached
      [of "freshWorld []" "''en''" offline FetchRejected, OF m r]
    by (simp add: h d)
  show ?thesis
    using 1 2 by blast
qed

subsection \<open>Elements and their attributes\<close>

lemma getAttribute_setAttribute:
  "getAttribute (setAttribute name v el) name' =
     (if name' = name then Some v else getAttribute el name')"
  by (simp add: getAttribute_def setAttribute_def update_conv')

lemma setAttribute_fields [simp]:
  "tagName (setAttribute name v el) = tagName el"
  "classList (setAttribute name v el) = classList el"
  "textContent (setAttribute name v el) = textContent el"
  by (simp_all add: setAttribute_def)


lemma setAttribute_twice:
  "setAttribute name v (setAttribute name v' el) = setAttribute name v el"
  by (simp add: setAttribute_def)

lemma getAttribute_textContent_update [simp]:
  "getAttribute (el\<lparr>textContent := s\<rparr>) name = getAttribute el name"
  by (simp add: getAttribute_def)

text \<open>What the two loop bodies return, when they return.\<close>

lemma translateText_Inr:
  assumes "translateText inh b el = Inr el'"
  shows "attributes el' = attributes el" and "tagName el' = tagName el"
    and "classList el' = classList el"
    and "getAttribute el' name = getAttribute el name"
    and "translateText inh b el' = Inr el'"
    and "\<And>key. getAttribute el ''data-i18n'' = Some key \<Longrightarrow>
           \<not> nullish (getNestedValue inh b key) \<Longrightarrow>
           ToString (getNestedValue inh b key) = Inr (textContent el')"
    and "(\<forall>key. getAttribute el ''data-i18n'' = Some key \<longrightarrow> nullish (getNestedValue inh b key))
           \<Longrightarrow> el' = el"
  using assms
  by (auto simp: translateText_def Let_def getAttribute_def split: option.splits if_splits sum.splits)

lemma translateAriaLabel_Inr:
  assumes "translateAriaLabel inh b el = Inr el'"
  shows "textContent el' = textContent el" and "tagName el' = tagName el"
    and "classList el' = classList el"
    and "name \<noteq> ''aria-label'' \<Longrightarrow> getAttribute el' name = getAttribute el name"
    and "translateAriaLabel inh b el' = Inr el'"
    and "\<And>key. getAttribute el ''data-i18n-aria-label'' = Some key \<Longrightarrow>
           \<not> nullish (getNestedValue inh b key) \<Longrightarrow>
           (\<exists>s. ToString (getNestedValue inh b key) = Inr s
                \<and> getAttribute el' ''aria-label'' = Some s)"
    and "(\<forall>key. getAttribute el ''data-i18n-aria-label'' = Some key
            \<longrightarrow> nullish (getNestedValue inh b key)) \<Longrightarrow> el' = el"
  using assms
  by (auto simp: translateAriaLabel_def Let_def getAttribute_setAttribute setAttribute_twice
      split: option.splits if_splits sum.splits)




subsection \<open>Loops that can throw\<close>

lemma length_eachOrThrow [simp]: "length (snd (eachOrThrow f els)) = length els"
  by (induction els) (auto split: sum.splits prod.splits)



text \<open>Every element after the loop is as it was, or is what the body made of it.\<close>

lemma eachOrThrow_each:
  "list_all2 (\<lambda>el el'. el' = el \<or> f el = Inr el') els (snd (eachOrThrow f els))"
  by (induction els) (auto split: sum.splits prod.splits simp: list_all2_refl)



subsection \<open>The page\<close>

lemma document_eqI:
  fixes d d' :: dom_document
  shows "elements d = elements d' \<Longrightarrow> title d = title d' \<Longrightarrow> d = d'"
  by (cases d, cases d') (simp add: elements_def)

lemma elements_not_empty [simp]: "elements doc \<noteq> []"
  by (simp add: elements_def)

lemma elements_withElements: "els \<noteq> [] \<Longrightarrow> elements (withElements doc els) = els"
  by (cases els) (simp_all add: withElements_def elements_def)

lemma title_withElements [simp]: "title (withElements doc els) = title doc"
  by (cases els) (simp_all add: withElements_def)

lemma withElements_elements [simp]: "withElements doc (elements doc) = doc"
  by (simp add: withElements_def elements_def)

lemma elements_title_update [simp]: "elements (doc\<lparr>title := t\<rparr>) = elements doc"
  by (simp add: elements_def)

lemma elements_forEachOrThrow:
  "elements (snd (forEachOrThrow selected f doc))
     = snd (eachOrThrow (\<lambda>el. if selected el then f el else Inr el) (elements doc))"
proof -
  have "snd (eachOrThrow (\<lambda>el. if selected el then f el else Inr el) (elements doc)) \<noteq> []"
    by (metis elements_not_empty length_eachOrThrow length_0_conv)
  then show ?thesis
    by (cases "eachOrThrow (\<lambda>el. if selected el then f el else Inr el) (elements doc)")
       (simp add: forEachOrThrow_def elements_withElements)
qed


lemma title_forEachOrThrow [simp]: "title (snd (forEachOrThrow selected f doc)) = title doc"
  by (simp add: forEachOrThrow_def split: prod.splits)

lemma length_elements_forEachOrThrow [simp]:
  "length (elements (snd (forEachOrThrow selected f doc))) = length (elements doc)"
  by (simp add: elements_forEachOrThrow)



text \<open>The loop bodies do nothing to an element without their attribute.\<close>

lemma translateText_unselected:
  "(\<lambda>el. if hasAttribute ''data-i18n'' el then translateText inh b el else Inr el)
     = translateText inh b"
  by (auto simp: fun_eq_iff hasAttribute_def translateText_def)

lemma translateAriaLabel_unselected:
  "(\<lambda>el. if hasAttribute ''data-i18n-aria-label'' el then translateAriaLabel inh b el else Inr el)
     = translateAriaLabel inh b"
  by (auto simp: fun_eq_iff hasAttribute_def translateAriaLabel_def)

lemma elements_onFirstSelected:
  "elements (onFirstSelected selected f doc) = updateFirst selected f (elements doc)"
  by (simp add: onFirstSelected_def elements_def)

lemma title_onFirstSelected [simp]: "title (onFirstSelected selected f doc) = title doc"
  by (simp add: onFirstSelected_def)

lemma length_updateFirst [simp]: "length (updateFirst selected f els) = length els"
  by (induction els) simp_all



lemma updateFirst_twice:
  assumes "\<And>el. selected el \<Longrightarrow> selected (f el)" and "\<And>el. f (f el) = f el"
  shows "updateFirst selected f (updateFirst selected f els) = updateFirst selected f els"
  using assms by (induction els) simp_all

lemma list_ex_updateFirst:
  assumes "\<And>el. selected el \<Longrightarrow> selected (f el)"
  shows "list_ex selected (updateFirst selected f els) = list_ex selected els"
  using assms by (induction els) auto

lemma isDescriptionMeta_setAttribute:
  "name \<noteq> ''name'' \<Longrightarrow> isDescriptionMeta (setAttribute name v el) = isDescriptionMeta el"
  by (simp add: isDescriptionMeta_def getAttribute_setAttribute)

subsection \<open>Applying a bundle\<close>

lemma setTitle_Inr:
  assumes "setTitle metaTitle doc = Inr doc'"
  shows "elements doc' = elements doc"
    and "\<And>d. title d = title doc' \<Longrightarrow> setTitle metaTitle d = Inr d"
  using assms
  by (auto simp: setTitle_def split: if_splits sum.splits)

lemma setTitle_Inl: "setTitle metaTitle doc = Inl e \<Longrightarrow> setTitle metaTitle d = Inl e"
  by (auto simp: setTitle_def split: if_splits sum.splits)

lemma setDescription_Inr:
  assumes "setDescription metaDesc doc = Inr doc'"
  shows "title doc' = title doc"
    and "setDescription metaDesc doc' = Inr doc'"
    and "elements doc' = elements doc
         \<or> (\<exists>s. elements doc' = updateFirst isDescriptionMeta (setAttribute ''content'' s)
                                   (elements doc))"
proof -
  show "title doc' = title doc"
    using assms by (auto simp: setDescription_def split: if_splits sum.splits)
  show "elements doc' = elements doc
         \<or> (\<exists>s. elements doc' = updateFirst isDescriptionMeta (setAttribute ''content'' s)
                                   (elements doc))"
    using assms
    by (auto simp: setDescription_def elements_onFirstSelected split: if_splits sum.splits)
  show "setDescription metaDesc doc' = Inr doc'"
  proof (cases "truthy metaDesc \<and> list_ex isDescriptionMeta (elements doc)")
    case False
    then show ?thesis
      using assms by (auto simp: setDescription_def)
  next
    case True
    then obtain s where s: "ToString metaDesc = Inr s"
      and doc': "doc' = onFirstSelected isDescriptionMeta (setAttribute ''content'' s) doc"
      using assms by (auto simp: setDescription_def split: sum.splits)
    have ex: "list_ex isDescriptionMeta (elements doc')"
      using True by (simp add: doc' elements_onFirstSelected list_ex_updateFirst
          isDescriptionMeta_setAttribute)
    have "onFirstSelected isDescriptionMeta (setAttribute ''content'' s) doc' = doc'"
      by (rule document_eqI)
         (simp_all add: doc' elements_onFirstSelected updateFirst_twice
            isDescriptionMeta_setAttribute setAttribute_twice)
    then show ?thesis
      using True s ex by (simp add: setDescription_def)
  qed
qed






text \<open>\<open>applyTranslations\<close> by the outcome of its steps.\<close>

lemma applyTranslations_steps:
  "applyTranslations inh b doc =
     (let F1 = forEachOrThrow (hasAttribute ''data-i18n'') (translateText inh b) doc;
          F2 = forEachOrThrow (hasAttribute ''data-i18n-aria-label'')
                 (translateAriaLabel inh b) (snd F1)
      in if fst F1 \<noteq> None then F1
         else if fst F2 \<noteq> None then F2
         else (case setTitle (getNestedValue inh b ''meta.title'') (snd F2) of
                 Inl e \<Rightarrow> (Some e, snd F2)
               | Inr doc3 \<Rightarrow>
                   (case setDescription (getNestedValue inh b ''meta.description'') doc3 of
                      Inl e \<Rightarrow> (Some e, doc3)
                    | Inr doc4 \<Rightarrow> (None, doc4))))"
  by (auto simp: applyTranslations_def Let_def split: prod.splits option.splits sum.splits)


text \<open>
  Every element of the page after \<open>applyTranslations\<close>, by its place: it went through
  the first loop body or not, then through the second or not, and the description's
  element may have got its content.
\<close>

lemma updateFirst_each:
  "list_all2 (\<lambda>el el'. el' = el \<or> (selected el \<and> el' = f el)) els (updateFirst selected f els)"
  by (induction els) (auto simp: list_all2_refl)

lemma elements_after_applyTranslations:
  "\<exists>els1 els2.
     list_all2 (\<lambda>el x. x = el \<or> translateText inh b el = Inr x) (elements doc) els1
     \<and> list_all2 (\<lambda>x y. y = x \<or> translateAriaLabel inh b x = Inr y) els1 els2
     \<and> list_all2 (\<lambda>y el'. el' = y \<or> (isDescriptionMeta y
                       \<and> (\<exists>s. el' = setAttribute ''content'' s y)))
          els2 (elements (snd (applyTranslations inh b doc)))"
proof -
  let ?R1 = "\<lambda>el x. x = el \<or> translateText inh b el = Inr x"
  let ?R2 = "\<lambda>x y. y = x \<or> translateAriaLabel inh b x = Inr y"
  let ?R3 = "\<lambda>y el'. el' = y \<or> (isDescriptionMeta y \<and> (\<exists>s. el' = setAttribute ''content'' s y))"
  define F1 where "F1 = forEachOrThrow (hasAttribute ''data-i18n'') (translateText inh b) doc"
  define F2 where "F2 = forEachOrThrow (hasAttribute ''data-i18n-aria-label'')
                          (translateAriaLabel inh b) (snd F1)"
  have r1: "list_all2 ?R1 (elements doc) (elements (snd F1))"
    unfolding F1_def elements_forEachOrThrow translateText_unselected by (rule eachOrThrow_each)
  have r2: "list_all2 ?R2 (elements (snd F1)) (elements (snd F2))"
    unfolding F2_def elements_forEachOrThrow translateAriaLabel_unselected
    by (rule eachOrThrow_each)
  have refl2: "list_all2 ?R2 els els" and refl3: "list_all2 ?R3 els els" for els
    by (simp_all add: list_all2_refl)
  have steps: "applyTranslations inh b doc =
      (if fst F1 \<noteq> None then F1
       else if fst F2 \<noteq> None then F2
       else (case setTitle (getNestedValue inh b ''meta.title'') (snd F2) of
               Inl e \<Rightarrow> (Some e, snd F2)
             | Inr doc3 \<Rightarrow>
                 (case setDescription (getNestedValue inh b ''meta.description'') doc3 of
                    Inl e \<Rightarrow> (Some e, doc3)
                  | Inr doc4 \<Rightarrow> (None, doc4))))"
    unfolding F1_def F2_def by (simp add: applyTranslations_steps Let_def)
  have r3: "list_all2 ?R3 (elements (snd F2)) (elements (snd (applyTranslations inh b doc)))"
    if "fst F1 = None"
  proof (cases "fst F2")
    case (Some e)
    then show ?thesis using that by (simp add: steps refl3)
  next
    case None
    show ?thesis
    proof (cases "setTitle (getNestedValue inh b ''meta.title'') (snd F2)")
      case (Inl e)
      then show ?thesis using that None by (simp add: steps refl3)
    next
      case (Inr d3)
      have e3: "elements d3 = elements (snd F2)"
        using Inr by (rule setTitle_Inr(1))
      show ?thesis
      proof (cases "setDescription (getNestedValue inh b ''meta.description'') d3")
        case (Inl e)
        then show ?thesis using that None Inr by (simp add: steps e3 refl3)
      next
        case d4: (Inr d4)
        have "list_all2 ?R3 (elements d3) (elements d4)"
        proof (rule disjE [OF setDescription_Inr(3) [OF d4]])
          assume "elements d4 = elements d3"
          then show ?thesis by (simp add: refl3)
        next
          assume "\<exists>s. elements d4 = updateFirst isDescriptionMeta (setAttribute ''content'' s)
                                       (elements d3)"
          then obtain s where s: "elements d4 = updateFirst isDescriptionMeta
                                     (setAttribute ''content'' s) (elements d3)"
            by blast
          have "list_all2 (\<lambda>el el'. el' = el \<or> (isDescriptionMeta el
                     \<and> el' = setAttribute ''content'' s el)) (elements d3) (elements d4)"
            unfolding s by (rule updateFirst_each)
          then show ?thesis
            by (rule list_all2_mono) auto
        qed
        then show ?thesis using that None Inr d4 by (simp add: steps e3)
      qed
    qed
  qed
  show ?thesis
  proof (cases "fst F1")
    case (Some e)
    then have "elements (snd (applyTranslations inh b doc)) = elements (snd F1)"
      by (simp add: steps)
    then have "list_all2 ?R1 (elements doc) (elements (snd F1))
        \<and> list_all2 ?R2 (elements (snd F1)) (elements (snd F1))
        \<and> list_all2 ?R3 (elements (snd F1)) (elements (snd (applyTranslations inh b doc)))"
      using r1 by (simp add: refl2 refl3)
    then show ?thesis
      by (intro exI)
  next
    case None
    then have "list_all2 ?R1 (elements doc) (elements (snd F1))
        \<and> list_all2 ?R2 (elements (snd F1)) (elements (snd F2))
        \<and> list_all2 ?R3 (elements (snd F2)) (elements (snd (applyTranslations inh b doc)))"
      using r1 r2 r3 by simp
    then show ?thesis
      by (intro exI)
  qed
qed

lemma length_elements_applyTranslations [simp]:
  "length (elements (snd (applyTranslations inh b doc))) = length (elements doc)"
proof -
  obtain els1 els2 where
    1: "list_all2 (\<lambda>el x. x = el \<or> translateText inh b el = Inr x) (elements doc) els1"
    and 2: "list_all2 (\<lambda>x y. y = x \<or> translateAriaLabel inh b x = Inr y) els1 els2"
    and 3: "list_all2 (\<lambda>y el'. el' = y \<or> (isDescriptionMeta y
                       \<and> (\<exists>s. el' = setAttribute ''content'' s y)))
          els2 (elements (snd (applyTranslations inh b doc)))"
    using elements_after_applyTranslations [of inh b doc] by blast
  show ?thesis
    using list_all2_lengthD [OF 1] list_all2_lengthD [OF 2] list_all2_lengthD [OF 3] by simp
qed

lemma nth_elements_applyTranslations:
  assumes "i < length (elements doc)"
  obtains x y where
    "x = elements doc ! i \<or> translateText inh b (elements doc ! i) = Inr x"
    "y = x \<or> translateAriaLabel inh b x = Inr y"
    "elements (snd (applyTranslations inh b doc)) ! i = y
     \<or> (isDescriptionMeta y
        \<and> (\<exists>s. elements (snd (applyTranslations inh b doc)) ! i = setAttribute ''content'' s y))"
proof -
  obtain els1 els2 where
    1: "list_all2 (\<lambda>el x. x = el \<or> translateText inh b el = Inr x) (elements doc) els1"
    and 2: "list_all2 (\<lambda>x y. y = x \<or> translateAriaLabel inh b x = Inr y) els1 els2"
    and 3: "list_all2 (\<lambda>y el'. el' = y \<or> (isDescriptionMeta y
                       \<and> (\<exists>s. el' = setAttribute ''content'' s y)))
          els2 (elements (snd (applyTranslations inh b doc)))"
    using elements_after_applyTranslations [of inh b doc] by blast
  have l: "i < length els1" "i < length els2"
    using assms list_all2_lengthD [OF 1] list_all2_lengthD [OF 2] by simp_all
  show ?thesis
    using that [of "els1 ! i" "els2 ! i"]
      list_all2_nthD [OF 1 assms] list_all2_nthD [OF 2 l(1)] list_all2_nthD [OF 3 l(2)]
    by blast
qed




lemmas page_evaluation =
  applyTranslations_def forEachOrThrow_def withElements_def elements_def hasAttribute_def
  translateText_def translateAriaLabel_def setTitle_def setDescription_def onFirstSelected_def
  getAttribute_def setAttribute_def isDescriptionMeta_def getNestedValue_def
  objectBuiltins_def freshWorld_def htmlElement_def Let_def



subsection \<open>The picker\<close>

lemma title_forEachSelected [simp]: "title (forEachSelected selected f doc) = title doc"
  by (simp add: forEachSelected_def)

lemma classList_toggle_fields [simp]:
  "attributes (classList_toggle token force el) = attributes el"
  "tagName (classList_toggle token force el) = tagName el"
  "textContent (classList_toggle token force el) = textContent el"
  by (simp_all add: classList_toggle_def)

lemma getAttribute_classList_toggle [simp]:
  "getAttribute (classList_toggle token force el) name = getAttribute el name"
  by (simp add: getAttribute_def)


lemma hasClass_setAttribute [simp]: "hasClass token (setAttribute name v el) = hasClass token el"
  by (simp add: hasClass_def)


lemma documentElement_updatePicker:
  "getAttribute (documentElement (updatePicker activeLang doc)) ''lang'' = Some activeLang"
  by (simp add: updatePicker_def Let_def getAttribute_setAttribute)

lemma title_updatePicker [simp]: "title (updatePicker activeLang doc) = title doc"
  by (simp add: updatePicker_def Let_def)

lemma length_elements_updatePicker [simp]:
  "length (elements (updatePicker activeLang doc)) = length (elements doc)"
  by (simp add: updatePicker_def Let_def elements_def forEachSelected_def)


subsection \<open>Switching the language\<close>

lemma switchLanguage_supported:
  assumes "lang \<in> set SUPPORTED_LANGS"
  shows "switchLanguage inh net lang w =
    (let w1 = w\<lparr>localStorage := (localStorage w)(I18N_STORAGE_KEY \<mapsto> lang),
                history := history w @ [SetItem I18N_STORAGE_KEY lang]\<rparr>;
         loaded = loadTranslation net lang w1;
         applied = applyTranslations inh (fst loaded) (document w)
     in if fst applied = None
        then (None, (snd loaded)\<lparr>document := updatePicker lang (snd applied)\<rparr>)
        else (fst applied, (snd loaded)\<lparr>document := snd applied\<rparr>))"
proof -
  define w1 where "w1 = w\<lparr>localStorage := (localStorage w)(I18N_STORAGE_KEY \<mapsto> lang),
                history := history w @ [SetItem I18N_STORAGE_KEY lang]\<rparr>"
  have "document (snd (loadTranslation net lang w1)) = document w"
    using loadTranslation_frame [of net lang w1] by (simp add: w1_def)
  then show ?thesis
    using assms unfolding switchLanguage_def Let_def w1_def [symmetric]
    by (auto simp: case_prod_beta split: option.splits prod.splits)
qed

text \<open>
  C7. For every code that is not supported, \<open>switchLanguage\<close> does nothing: its promise
  resolves, and the world after the call is the world before it, so the stored
  preference, the cache, the page (the picker's controls and the \<open>lang\<close> attribute
  included) and the events are unchanged. No request is made.
\<close>

theorem switchLanguage_unsupported_noop:
  "lang \<notin> set SUPPORTED_LANGS \<Longrightarrow> switchLanguage inherited net lang w = (None, w)"
  by (simp add: switchLanguage_def)

theorem switchLanguage_unsupported_noop_witness:
  "switchLanguage objectBuiltins (serving ''xx'' heroBundle) ''xx''
       (freshWorld [heroSubtitle, langOption ''en''])
     = (None, freshWorld [heroSubtitle, langOption ''en''])"
  using switchLanguage_unsupported_noop [of "''xx''"]
  by (simp add: SUPPORTED_LANGS_def)















text \<open>\<open>applyTranslations\<close> writes the attributes \<open>aria-label\<close> and \<open>content\<close> only.\<close>

lemma getAttribute_applyTranslations:
  assumes "i < length (elements doc)" and "name \<noteq> ''aria-label''" and "name \<noteq> ''content''"
  shows "getAttribute (elements (snd (applyTranslations inh b doc)) ! i) name
           = getAttribute (elements doc ! i) name"
proof -
  obtain x y where
    x: "x = elements doc ! i \<or> translateText inh b (elements doc ! i) = Inr x"
    and y: "y = x \<or> translateAriaLabel inh b x = Inr y"
    and z: "elements (snd (applyTranslations inh b doc)) ! i = y
     \<or> (isDescriptionMeta y
        \<and> (\<exists>s. elements (snd (applyTranslations inh b doc)) ! i = setAttribute ''content'' s y))"
    using assms(1) by (rule nth_elements_applyTranslations)
  have "getAttribute x name = getAttribute (elements doc ! i) name"
    using x translateText_Inr(4) by auto
  moreover have "getAttribute y name = getAttribute x name"
    using y assms(2) translateAriaLabel_Inr(4) by auto
  moreover have "getAttribute (elements (snd (applyTranslations inh b doc)) ! i) name
                   = getAttribute y name"
    using z assms(3) by (auto simp: getAttribute_setAttribute)
  ultimately show ?thesis by simp
qed

lemma documentElement_applyTranslations:
  "getAttribute (documentElement (snd (applyTranslations inh b doc))) ''lang''
     = getAttribute (documentElement doc) ''lang''"
  using getAttribute_applyTranslations [of 0 doc "''lang''" inh b]
  by (simp add: elements_def)

lemma failed_load_keeps_entry:
  assumes "\<not> truthy (cached w lang)" and "readBundle (net (bundleUrl lang)) = Inl err"
  shows "translationCache (snd (loadTranslation net lang w)) lang = translationCache w lang"
proof (cases "lang = DEFAULT_LANG")
  case True
  then show ?thesis
    using assms by (simp add: loadTranslation_default_failed)
next
  case False
  have "loadTranslation net lang w =
          loadTranslation net DEFAULT_LANG
            (w\<lparr>history := history w @ [Fetch (bundleUrl lang), Warn (warning lang)]\<rparr>)"
    using assms False by (rule loadTranslation_fallback)
  then show ?thesis
    using False by (simp add: loadTranslation_default_cache)
qed

text \<open>
  C10, as the code has it. \<open>switchLanguage\<close> writes the preference before it asks for
  the bundle. When the code is supported, the cache has no bundle for it and the request
  fails, the stored preference is the requested code all the same, the events are the
  write to the storage, then the request, then the warning, and the bundle that is
  applied is the fallback: the default language's bundle (cached or fetched), or the
  empty bundle. Nothing is cached under the requested code. When applying the fallback
  does not throw, the \<open>lang\<close> attribute of the root element is the requested code; when
  it throws, the promise is rejected and the \<open>lang\<close> attribute is as it was. So the
  preference and the text shown can disagree: with only the English bundle on the
  network, switching to \<open>de\<close> stores \<open>de\<close>, sets \<open>lang\<close> to \<open>de\<close> and shows the
  English text.
\<close>

theorem switchLanguage_failed_fetch:
  assumes "lang \<in> set SUPPORTED_LANGS" and "\<not> truthy (cached w lang)"
    and "readBundle (net (bundleUrl lang)) = Inl err"
  shows
    "(let w' = snd (switchLanguage inherited net lang w);
          w2 = w\<lparr>localStorage := (localStorage w)(I18N_STORAGE_KEY \<mapsto> lang),
                 history := history w @ [SetItem I18N_STORAGE_KEY lang,
                                         Fetch (bundleUrl lang), Warn (warning lang)]\<rparr>;
          fallback = (if lang = DEFAULT_LANG then JObj []
                      else fst (loadTranslation net DEFAULT_LANG w2));
          applied = applyTranslations inherited fallback (document w)
      in localStorage w' I18N_STORAGE_KEY = Some lang
         \<and> prefix (history w @ [SetItem I18N_STORAGE_KEY lang, Fetch (bundleUrl lang),
                                 Warn (warning lang)]) (history w')
         \<and> fst (switchLanguage inherited net lang w) = fst applied
         \<and> (fst applied = None \<longrightarrow>
              document w' = updatePicker lang (snd applied)
              \<and> getAttribute (documentElement (document w')) ''lang'' = Some lang)
         \<and> (fst applied \<noteq> None \<longrightarrow>
              document w' = snd applied
              \<and> getAttribute (documentElement (document w')) ''lang''
                  = getAttribute (documentElement (document w)) ''lang'')
         \<and> (fallback = JObj [] \<or> fallback = cached w DEFAULT_LANG
              \<or> readBundle (net (bundleUrl DEFAULT_LANG)) = Inr fallback)
         \<and> translationCache w' lang = translationCache w lang)
     \<and> fst (switchLanguage objectBuiltins (serving ''en'' englishBundle) ''de''
              (freshWorld [heroSubtitle])) = None
     \<and> localStorage (snd (switchLanguage objectBuiltins (serving ''en'' englishBundle) ''de''
              (freshWorld [heroSubtitle]))) I18N_STORAGE_KEY = Some ''de''
     \<and> getAttribute (documentElement (document
           (snd (switchLanguage objectBuiltins (serving ''en'' englishBundle) ''de''
              (freshWorld [heroSubtitle]))))) ''lang'' = Some ''de''
     \<and> descendants (document
           (snd (switchLanguage objectBuiltins (serving ''en'' englishBundle) ''de''
              (freshWorld [heroSubtitle]))))
         = [heroSubtitle\<lparr>textContent := ''Hello''\<rparr>]"
proof -
  define w1 where "w1 = w\<lparr>localStorage := (localStorage w)(I18N_STORAGE_KEY \<mapsto> lang),
                 history := history w @ [SetItem I18N_STORAGE_KEY lang]\<rparr>"
  define w2 where "w2 = w\<lparr>localStorage := (localStorage w)(I18N_STORAGE_KEY \<mapsto> lang),
                 history := history w @ [SetItem I18N_STORAGE_KEY lang,
                                         Fetch (bundleUrl lang), Warn (warning lang)]\<rparr>"
  define fallback where "fallback = (if lang = DEFAULT_LANG then JObj []
                      else fst (loadTranslation net DEFAULT_LANG w2))"
  define applied where "applied = applyTranslations inherited fallback (document w)"
  define w' where "w' = snd (switchLanguage inherited net lang w)"
  define loaded where "loaded = snd (loadTranslation net lang w1)"
  have w12: "w1\<lparr>history := history w1 @ [Fetch (bundleUrl lang), Warn (warning lang)]\<rparr> = w2"
    by (simp add: w1_def w2_def)
  have miss: "\<not> truthy (cached w1 lang)"
    using assms(2) by (simp add: w1_def cached_def)
  have load: "loadTranslation net lang w1 =
      (if lang = DEFAULT_LANG then (JObj [], w2) else loadTranslation net DEFAULT_LANG w2)"
  proof (cases "lang = DEFAULT_LANG")
    case True
    have "loadTranslation net DEFAULT_LANG w1 =
        (JObj [], w1\<lparr>history := history w1 @
           [Fetch (bundleUrl DEFAULT_LANG), Warn (warning DEFAULT_LANG)]\<rparr>)"
      using miss assms(3) unfolding True by (rule loadTranslation_default_failed)
    then show ?thesis
      using True w12 by simp
  next
    case False
    have "loadTranslation net lang w1 = loadTranslation net DEFAULT_LANG
        (w1\<lparr>history := history w1 @ [Fetch (bundleUrl lang), Warn (warning lang)]\<rparr>)"
      using miss assms(3) False by (rule loadTranslation_fallback)
    then show ?thesis
      using False w12 by simp
  qed
  have fb: "fst (loadTranslation net lang w1) = fallback"
    by (simp add: load fallback_def)
  have sw: "switchLanguage inherited net lang w =
      (if fst applied = None
       then (None, loaded\<lparr>document := updatePicker lang (snd applied)\<rparr>)
       else (fst applied, loaded\<lparr>document := snd applied\<rparr>))"
    using switchLanguage_supported [OF assms(1), of inherited net w]
    by (simp add: w1_def [symmetric] Let_def fb applied_def loaded_def)
  have 1: "localStorage w' I18N_STORAGE_KEY = Some lang"
    using loadTranslation_frame [of net lang w1] by (simp add: w'_def sw loaded_def w1_def)
  have h2: "prefix (history w2) (history (snd (loadTranslation net DEFAULT_LANG w2)))"
    by (simp add: loadTranslation_default split: sum.splits)
  have 2: "prefix (history w @ [SetItem I18N_STORAGE_KEY lang, Fetch (bundleUrl lang),
                                 Warn (warning lang)]) (history w')"
  proof -
    have "prefix (history w2) (history loaded)"
      using h2 by (simp add: load loaded_def)
    then show ?thesis
      by (simp add: w'_def sw w2_def)
  qed
  have 3: "fst (switchLanguage inherited net lang w) = fst applied"
    by (simp add: sw)
  have 4: "document w' = updatePicker lang (snd applied)
           \<and> getAttribute (documentElement (document w')) ''lang'' = Some lang"
    if "fst applied = None"
    using that by (simp add: w'_def sw documentElement_updatePicker)
  have 5: "document w' = snd applied
           \<and> getAttribute (documentElement (document w')) ''lang''
               = getAttribute (documentElement (document w)) ''lang''"
    if "fst applied \<noteq> None"
  proof -
    have "document w' = snd applied"
      using that by (cases "fst applied") (simp_all add: w'_def sw)
    then show ?thesis
      by (simp add: applied_def documentElement_applyTranslations)
  qed
  have 6: "fallback = JObj [] \<or> fallback = cached w DEFAULT_LANG
              \<or> readBundle (net (bundleUrl DEFAULT_LANG)) = Inr fallback"
  proof -
    have "cached w2 DEFAULT_LANG = cached w DEFAULT_LANG"
      by (simp add: w2_def cached_def)
    then show ?thesis
      by (auto simp: fallback_def loadTranslation_default split: sum.splits)
  qed
  have 7: "translationCache w' lang = translationCache w lang"
  proof -
    have "translationCache (snd (loadTranslation net lang w1)) lang = translationCache w1 lang"
      using miss assms(3) by (rule failed_load_keeps_entry)
    then show ?thesis
      by (simp add: w'_def sw loaded_def w1_def)
  qed
  have general: "localStorage w' I18N_STORAGE_KEY = Some lang
         \<and> prefix (history w @ [SetItem I18N_STORAGE_KEY lang, Fetch (bundleUrl lang),
                                 Warn (warning lang)]) (history w')
         \<and> fst (switchLanguage inherited net lang w) = fst applied
         \<and> (fst applied = None \<longrightarrow>
              document w' = updatePicker lang (snd applied)
              \<and> getAttribute (documentElement (document w')) ''lang'' = Some lang)
         \<and> (fst applied \<noteq> None \<longrightarrow>
              document w' = snd applied
              \<and> getAttribute (documentElement (document w')) ''lang''
                  = getAttribute (documentElement (document w)) ''lang'')
         \<and> (fallback = JObj [] \<or> fallback = cached w DEFAULT_LANG
              \<or> readBundle (net (bundleUrl DEFAULT_LANG)) = Inr fallback)
         \<and> translationCache w' lang = translationCache w lang"
    using 1 2 3 4 5 6 7 by blast
  let ?v = "freshWorld [heroSubtitle]"
  let ?ex = "switchLanguage objectBuiltins (serving ''en'' englishBundle) ''de'' ?v"
  have de: "''de'' \<in> set SUPPORTED_LANGS"
    by (simp add: SUPPORTED_LANGS_def)
  have r: "readBundle (serving ''en'' englishBundle (bundleUrl ''de'')) = Inl FetchRejected"
    "readBundle (serving ''en'' englishBundle (bundleUrl DEFAULT_LANG)) = Inr englishBundle"
    by (simp_all add: serving_def readBundle_def bundleUrl_def DEFAULT_LANG_def)
  have fetched: "loadTranslation (serving ''en'' englishBundle) ''de'' v =
      (englishBundle,
       v\<lparr>history := history v @ [Fetch (bundleUrl ''de''), Warn (warning ''de''),
                                 Fetch (bundleUrl DEFAULT_LANG)],
          translationCache := (translationCache v)(DEFAULT_LANG \<mapsto> englishBundle)\<rparr>)"
    if "translationCache v = Map.empty" for v
  proof -
    have m: "\<not> truthy (cached v ''de'')" "\<not> truthy (cached v DEFAULT_LANG)"
      using that by (simp_all add: cached_def)
    have "loadTranslation (serving ''en'' englishBundle) ''de'' v =
        loadTranslation (serving ''en'' englishBundle) DEFAULT_LANG
          (v\<lparr>history := history v @ [Fetch (bundleUrl ''de''), Warn (warning ''de'')]\<rparr>)"
      using m(1) r(1) by (rule loadTranslation_fallback) (simp add: DEFAULT_LANG_def)
    then show ?thesis
      using m(2) r(2) by (simp add: loadTranslation_default)
  qed
  have exnone: "fst (applyTranslations objectBuiltins englishBundle (document ?v)) = None"
    by (simp add: page_evaluation heroSubtitle_def englishBundle_def)
  have exsw: "fst ?ex = None"
    "document (snd ?ex)
       = updatePicker ''de'' (snd (applyTranslations objectBuiltins englishBundle (document ?v)))"
    "localStorage (snd ?ex) I18N_STORAGE_KEY = Some ''de''"
    using exnone [unfolded freshWorld_def, simplified]
    by (simp_all add: switchLanguage_supported [OF de] Let_def fetched freshWorld_def)
  have example: "getAttribute (documentElement (document (snd ?ex))) ''lang'' = Some ''de''"
    "descendants (document (snd ?ex)) = [heroSubtitle\<lparr>textContent := ''Hello''\<rparr>]"
    unfolding exsw(2)
    by (simp_all add: page_evaluation heroSubtitle_def englishBundle_def
        updatePicker_def forEachSelected_def hasClass_def markActive_def classList_toggle_def)
  show ?thesis
    unfolding Let_def w'_def [symmetric] w2_def [symmetric] fallback_def [symmetric]
      applied_def [symmetric]
    using general exsw(1,3) example by blast
qed

theorem switchLanguage_failed_fetch_witness:
  "fst (switchLanguage objectBuiltins offline ''de'' (freshWorld [heroSubtitle])) = None
   \<and> localStorage (snd (switchLanguage objectBuiltins offline ''de'' (freshWorld [heroSubtitle])))
        I18N_STORAGE_KEY = Some ''de''
   \<and> getAttribute (documentElement (document
         (snd (switchLanguage objectBuiltins offline ''de'' (freshWorld [heroSubtitle])))))
        ''lang'' = Some ''de''
   \<and> prefix [SetItem ''lang'' ''de'', Fetch ''i18n/de.json'',
              Warn ''[i18n] Failed to load de, falling back to en'']
        (history (snd (switchLanguage objectBuiltins offline ''de'' (freshWorld [heroSubtitle]))))
   \<and> document (snd (switchLanguage objectBuiltins offline ''de'' (freshWorld [heroSubtitle])))
     = updatePicker ''de'' (document (freshWorld [heroSubtitle]))
   \<and> translationCache (snd (switchLanguage objectBuiltins offline ''de''
        (freshWorld [heroSubtitle]))) ''de'' = None"
proof -
  let ?w = "freshWorld [heroSubtitle]"
  let ?w' = "snd (switchLanguage objectBuiltins offline ''de'' ?w)"
  have de: "''de'' \<in> set SUPPORTED_LANGS" "''de'' \<noteq> DEFAULT_LANG"
    by (simp_all add: SUPPORTED_LANGS_def DEFAULT_LANG_def)
  have m: "\<not> truthy (cached ?w ''de'')"
    by (simp add: cached_def freshWorld_def)
  have r: "readBundle (offline url) = Inl FetchRejected" for url
    by (simp add: offline_def readBundle_def)
  have fb: "fst (loadTranslation offline DEFAULT_LANG v) = JObj []"
    if "translationCache v = Map.empty" for v
    using that by (simp add: loadTranslation_default cached_def r)
  have fallback: "fst (loadTranslation offline DEFAULT_LANG
      (?w\<lparr>localStorage := (localStorage ?w)(I18N_STORAGE_KEY \<mapsto> ''de''),
           history := history ?w @ [SetItem I18N_STORAGE_KEY ''de'',
                                    Fetch (bundleUrl ''de''), Warn (warning ''de'')]\<rparr>)) = JObj []"
    by (rule fb) (simp add: freshWorld_def)
  note t0 = switchLanguage_failed_fetch
    [where lang = "''de''" and w = ?w and net = offline and err = FetchRejected
       and inherited = objectBuiltins,
     OF de(1) m r, unfolded Let_def]
  note t = t0 [unfolded if_not_P [OF de(2)] fallback]
  have applied: "applyTranslations objectBuiltins (JObj []) (document ?w) = (None, document ?w)"
    by (simp add: page_evaluation heroSubtitle_def)
  have h: "history ?w = []" "translationCache ?w ''de'' = None"
    by (simp_all add: freshWorld_def)
  have 0: "fst (switchLanguage objectBuiltins offline ''de'' ?w) = None"
    using t by (simp add: applied)
  have 1: "localStorage ?w' I18N_STORAGE_KEY = Some ''de''"
    using t by blast
  have none: "fst (applyTranslations objectBuiltins (JObj []) (document ?w)) = None"
    by (simp add: applied)
  have 2: "getAttribute (documentElement (document ?w')) ''lang'' = Some ''de''"
    using t none by blast
  have 3: "prefix [SetItem ''lang'' ''de'', Fetch ''i18n/de.json'',
              Warn ''[i18n] Failed to load de, falling back to en''] (history ?w')"
    using t by (simp add: h I18N_STORAGE_KEY_def bundleUrl_def warning_def DEFAULT_LANG_def)
  have 4: "document ?w' = updatePicker ''de'' (document ?w)"
    using t by (simp add: applied)
  have 5: "translationCache ?w' ''de'' = None"
    using t by (simp add: h)
  show ?thesis
    using 0 1 2 3 4 5 by blast
qed

text \<open>
  C10, as the claim states it, fails where applying the fallback throws. The request
  for \<open>de\<close> fails and the English bundle on the network is
  \<open>{hero: {subtitle: {toString: "x"}}}\<close>: writing the subtitle throws a \<open>TypeError\<close>,
  \<open>updatePicker\<close> is not reached, and the \<open>lang\<close> attribute of the root element is
  still \<open>en\<close>, with \<open>de\<close> stored as the preference.
\<close>

theorem switchLanguage_failed_fetch_counterexample:
  "''de'' \<in> set SUPPORTED_LANGS
   \<and> readBundle (serving ''en'' brokenBundle (bundleUrl ''de'')) = Inl FetchRejected
   \<and> fst (switchLanguage objectBuiltins (serving ''en'' brokenBundle) ''de''
          (freshWorld [heroSubtitle])) = Some TypeError
   \<and> localStorage (snd (switchLanguage objectBuiltins (serving ''en'' brokenBundle) ''de''
          (freshWorld [heroSubtitle]))) I18N_STORAGE_KEY = Some ''de''
   \<and> getAttribute (documentElement (document (snd (switchLanguage objectBuiltins
          (serving ''en'' brokenBundle) ''de'' (freshWorld [heroSubtitle]))))) ''lang''
       = Some ''en''
   \<and> descendants (document (snd (switchLanguage objectBuiltins (serving ''en'' brokenBundle)
          ''de'' (freshWorld [heroSubtitle])))) = [heroSubtitle]"
proof -
  let ?w = "freshWorld [heroSubtitle]"
  let ?sw = "switchLanguage objectBuiltins (serving ''en'' brokenBundle) ''de'' ?w"
  have de: "''de'' \<in> set SUPPORTED_LANGS"
    by (simp add: SUPPORTED_LANGS_def)
  have r: "readBundle (serving ''en'' brokenBundle (bundleUrl ''de'')) = Inl FetchRejected"
    "readBundle (serving ''en'' brokenBundle (bundleUrl DEFAULT_LANG)) = Inr brokenBundle"
    by (simp_all add: serving_def readBundle_def bundleUrl_def DEFAULT_LANG_def)
  have fetched: "loadTranslation (serving ''en'' brokenBundle) ''de'' v =
      (brokenBundle,
       v\<lparr>history := history v @ [Fetch (bundleUrl ''de''), Warn (warning ''de''),
                                 Fetch (bundleUrl DEFAULT_LANG)],
          translationCache := (translationCache v)(DEFAULT_LANG \<mapsto> brokenBundle)\<rparr>)"
    if "translationCache v = Map.empty" for v
  proof -
    have m: "\<not> truthy (cached v ''de'')" "\<not> truthy (cached v DEFAULT_LANG)"
      using that by (simp_all add: cached_def)
    have "loadTranslation (serving ''en'' brokenBundle) ''de'' v =
        loadTranslation (serving ''en'' brokenBundle) DEFAULT_LANG
          (v\<lparr>history := history v @ [Fetch (bundleUrl ''de''), Warn (warning ''de'')]\<rparr>)"
      using m(1) r(1) by (rule loadTranslation_fallback) (simp add: DEFAULT_LANG_def)
    then show ?thesis
      using m(2) r(2) by (simp add: loadTranslation_default)
  qed
  have thrown: "applyTranslations objectBuiltins brokenBundle (document ?w)
      = (Some TypeError, document ?w)"
    by (simp add: page_evaluation heroSubtitle_def brokenBundle_def)
  have sw: "?sw = (Some TypeError,
      ?w\<lparr>localStorage := (localStorage ?w)(I18N_STORAGE_KEY \<mapsto> ''de''),
          history := history ?w @ [SetItem I18N_STORAGE_KEY ''de'', Fetch (bundleUrl ''de''),
                                   Warn (warning ''de''), Fetch (bundleUrl DEFAULT_LANG)],
          translationCache := (translationCache ?w)(DEFAULT_LANG \<mapsto> brokenBundle),
          document := document ?w\<rparr>)"
    by (simp add: switchLanguage_supported [OF de] Let_def fetched
        thrown [unfolded freshWorld_def, simplified] freshWorld_def)
  show ?thesis
    unfolding sw using de r(1)
    by (simp add: freshWorld_def htmlElement_def getAttribute_def)
qed

end
